theory Spec2Isabelle
  imports Complex_Main "HOL-Library.AList"
begin

section \<open>Python values, errors and formatting\<close>

text \<open>
  The training script \<^verbatim>\<open>train.py\<close> is embedded as pure functions over an explicit
  state. Every Python exception the modelled code can raise is a value of \<open>error\<close>;
  a computation that may raise returns \<open>error + 'a\<close> with \<open>Inl\<close> for the exception.
  Tensors and Python floats are modelled by real numbers and lists of real numbers:
  rounding, infinities and NaN of floating-point arithmetic are outside this model.
\<close>

datatype error =
    ZeroDivisionError
  | KeyError string
  | TypeError
  | ShapeMismatch
  | FileNotFoundError string

definition ebind :: "error + 'a \<Rightarrow> ('a \<Rightarrow> error + 'b) \<Rightarrow> error + 'b" where
  "ebind m f = (case m of Inl e \<Rightarrow> Inl e | Inr x \<Rightarrow> f x)"

text \<open>Python's \<^verbatim>\<open>a % b\<close> on ints: floor modulus, \<^verbatim>\<open>ZeroDivisionError\<close> when \<open>b = 0\<close>.\<close>

definition py_mod :: "int \<Rightarrow> int \<Rightarrow> error + int" where
  "py_mod a b = (if b = 0 then Inl ZeroDivisionError else Inr (a mod b))"

fun digits :: "nat \<Rightarrow> string" where
  "digits n =
     (if n < 10 then [char_of (48 + n)]
      else digits (n div 10) @ [char_of (48 + n mod 10)])"

text \<open>\<^verbatim>\<open>str(i)\<close> for an int.\<close>

definition str_int :: "int \<Rightarrow> string" where
  "str_int i = (if i < 0 then CHR ''-'' # digits (nat (- i)) else digits (nat i))"

text \<open>The format \<^verbatim>\<open>{i:08}\<close>: sign first, then zeros up to a total width of eight.\<close>

definition fmt08 :: "int \<Rightarrow> string" where
  "fmt08 i =
     (let sgn = (if i < 0 then [CHR ''-''] else []); ds = digits (nat \<bar>i\<bar>)
      in sgn @ replicate (8 - length sgn - length ds) (CHR ''0'') @ ds)"

text \<open>One line written by \<^verbatim>\<open>print(*fields, sep=',', file=f)\<close>, without the newline.\<close>

fun print_sep :: "string \<Rightarrow> string list \<Rightarrow> string" where
  "print_sep sep [] = []"
| "print_sep sep [x] = x"
| "print_sep sep (x # y # ys) = x @ sep @ print_sep sep (y # ys)"

section \<open>Components of the \<^verbatim>\<open>k_diffusion\<close> package\<close>

text \<open>
  \<^verbatim>\<open>train.py\<close> imports \<^verbatim>\<open>utils\<close>, \<^verbatim>\<open>gns\<close> and \<^verbatim>\<open>sampling\<close> from the package
  \<^verbatim>\<open>k_diffusion\<close>; the definitions of this section follow the specification's
  component descriptions of the classes and functions the script calls.
\<close>

subsection \<open>EMA warmup schedule (\<^verbatim>\<open>utils.EMAWarmup\<close>)\<close>

text \<open>
  Modelled from the spec: \<^verbatim>\<open>utils.EMAWarmup\<close> (section 4.3 and the data model):
  a single step counter plus the fixed configuration (power, max\_value);
  \<open>decay(step) = min(max_value, (1 - 1/(step + 1))^power)\<close>. The real power \<open>powr\<close>
  is the power function for a non-negative base and a positive exponent.
\<close>

record ema_warmup =
  ew_power :: real
  ew_max_value :: real
  ew_step :: nat

definition decay :: "real \<Rightarrow> real \<Rightarrow> nat \<Rightarrow> real" where
  "decay pw max_value n = min max_value ((1 - 1 / (real n + 1)) powr pw)"

definition get_value :: "ema_warmup \<Rightarrow> real" where
  "get_value e = decay (ew_power e) (ew_max_value e) (ew_step e)"

definition ema_sched_step :: "ema_warmup \<Rightarrow> ema_warmup" where
  "ema_sched_step e = e\<lparr>ew_step := ew_step e + 1\<rparr>"

text \<open>
  Modelled from the spec: \<^verbatim>\<open>utils.ema_update\<close> (section 4.3): for every parameter
  pair, \<open>shadow = decay * shadow + (1 - decay) * live\<close>, elementwise.
\<close>

definition ema_update :: "real list \<Rightarrow> real list \<Rightarrow> real \<Rightarrow> real list" where
  "ema_update live shadow d = map2 (\<lambda>s l. d * s + (1 - d) * l) shadow live"

subsection \<open>Learning-rate schedule (\<^verbatim>\<open>utils.InverseLR\<close>)\<close>

text \<open>
  Modelled from the spec: \<^verbatim>\<open>utils.InverseLR\<close> (section 4.4): a step counter plus
  the fixed configuration (inv\_gamma, power, warmup);
  \<open>multiplier(step) = (1 - warmup^(step+1)) * (1 + step/inv_gamma)^(-power)\<close>.
\<close>

record inverse_lr =
  inv_gamma :: real
  lr_power :: real
  warmup :: real
  last_epoch :: nat

definition multiplier :: "inverse_lr \<Rightarrow> error + real" where
  "multiplier l =
     (if inv_gamma l = 0 then Inl ZeroDivisionError
      else Inr ((1 - warmup l ^ (last_epoch l + 1)) *
                (1 + real (last_epoch l) / inv_gamma l) powr (- lr_power l)))"

definition sched_step :: "inverse_lr \<Rightarrow> inverse_lr" where
  "sched_step l = l\<lparr>last_epoch := last_epoch l + 1\<rparr>"

subsection \<open>Gradient noise scale (\<^verbatim>\<open>gns.GradientNoiseScale\<close>)\<close>

text \<open>
  Modelled from the spec: \<^verbatim>\<open>gns.GradientNoiseScale\<close> (section 4.5): two
  exponentially smoothed scalars \<open>G2\<close> and \<open>S\<close> with a fixed decay constant.
\<close>

record gns_state =
  gns_beta :: real
  gns_eps :: real
  ema_sq_norm :: real
  ema_var :: real

text \<open>
  Modelled from the spec: the two estimates of section 4.5,
  \<open>G2_est = (large_size*large_norm - small_size*small_norm) / (large_size - small_size)\<close>
  and \<open>S_est = (small_norm - large_norm) / (1/small_size - 1/large_size)\<close>. An
  estimate with a zero denominator is undefined (the NaN of the specification):
  the result is \<open>None\<close>.
\<close>

definition gns_estimates :: "real \<Rightarrow> real \<Rightarrow> int \<Rightarrow> int \<Rightarrow> (real \<times> real) option" where
  "gns_estimates small_norm large_norm small_size large_size =
     (if large_size - small_size = 0 \<or> small_size = 0 \<or> large_size = 0
         \<or> 1 / real_of_int small_size - 1 / real_of_int large_size = 0
      then None
      else Some
        ((real_of_int large_size * large_norm - real_of_int small_size * small_norm)
            / real_of_int (large_size - small_size),
         (small_norm - large_norm)
            / (1 / real_of_int small_size - 1 / real_of_int large_size)))"

text \<open>
  Modelled from the spec: the update of section 4.5. An update with
  \<open>large_size = small_size\<close> is a no-op; otherwise the two estimates are
  smoothed into the running state, and an undefined estimate (a size of zero)
  is a division by zero.
\<close>

definition update_gns :: "gns_state \<Rightarrow> real \<Rightarrow> real \<Rightarrow> int \<Rightarrow> int \<Rightarrow> error + gns_state" where
  "update_gns g small_norm large_norm small_size large_size =
     (if large_size = small_size then Inr g
      else
        (case gns_estimates small_norm large_norm small_size large_size of
           None \<Rightarrow> Inl ZeroDivisionError
         | Some (G2_est, S_est) \<Rightarrow>
             Inr (g\<lparr>ema_sq_norm := gns_beta g * ema_sq_norm g + (1 - gns_beta g) * G2_est,
                    ema_var := gns_beta g * ema_var g + (1 - gns_beta g) * S_est\<rparr>)))"

subsection \<open>Noise schedule (\<^verbatim>\<open>sampling.get_sigmas_karras\<close>)\<close>

text \<open>
  Modelled from the spec: \<^verbatim>\<open>sampling.get_sigmas_karras\<close> (section 4.1):
  \<open>sigma_i = (sigma_max^(1/rho) + i/(n-1) * (sigma_min^(1/rho) - sigma_max^(1/rho)))^rho\<close>
  for \<open>i = 0..n-1\<close>, followed by an appended 0; the single-step case is
  \<open>[sigma_max, 0]\<close>. \<open>rho = 0\<close> divides by zero.
\<close>

definition karras_sigma :: "nat \<Rightarrow> real \<Rightarrow> real \<Rightarrow> real \<Rightarrow> nat \<Rightarrow> real" where
  "karras_sigma n sigma_min sigma_max rho i =
     (sigma_max powr (1 / rho)
        + (real i / real (n - 1)) * (sigma_min powr (1 / rho) - sigma_max powr (1 / rho)))
       powr rho"

definition get_sigmas_karras :: "nat \<Rightarrow> real \<Rightarrow> real \<Rightarrow> real \<Rightarrow> error + real list" where
  "get_sigmas_karras n sigma_min sigma_max rho =
     (if rho = 0 then Inl ZeroDivisionError
      else if n = 1 then Inr [sigma_max, 0]
      else Inr (map (karras_sigma n sigma_min sigma_max rho) [0..<n] @ [0]))"

subsection \<open>Linear multistep sampler (\<^verbatim>\<open>sampling.sample_lms\<close>)\<close>

text \<open>
  Modelled from the spec: \<^verbatim>\<open>sampling.sample_lms\<close> (section 4.6). The sampler
  integrates \<open>dx/dsigma = (x - D(x,sigma)) / sigma\<close> over the schedule: for each
  index but the last it evaluates the denoiser once, computes the derivative,
  puts it in front of a history of at most four derivatives and advances \<open>x\<close> by
  the weighted sum of the history. The specification leaves the multistep
  weights open, so they are the parameter \<open>coeff order sigmas i j\<close>. A zero
  sigma as divisor makes the trajectory non-finite: the result is \<open>None\<close>.
\<close>

definition to_d :: "real list \<Rightarrow> real \<Rightarrow> real list \<Rightarrow> real list option" where
  "to_d x sigma denoised =
     (if sigma = 0 then None else Some (map2 (\<lambda>a b. (a - b) / sigma) x denoised))"

definition vadd :: "real list \<Rightarrow> real list \<Rightarrow> real list" where
  "vadd x y = map2 (+) x y"

definition smul :: "real \<Rightarrow> real list \<Rightarrow> real list" where
  "smul c x = map ((*) c) x"

definition lms_step ::
  "(nat \<Rightarrow> real list \<Rightarrow> nat \<Rightarrow> nat \<Rightarrow> real) \<Rightarrow> (real list \<Rightarrow> real \<Rightarrow> real list) \<Rightarrow> real list
     \<Rightarrow> nat \<Rightarrow> real list \<times> real list list \<Rightarrow> (real list \<times> real list list) option" where
  "lms_step coeff D sigmas i s =
     (case s of (x, ds) \<Rightarrow>
        (case to_d x (sigmas ! i) (D x (sigmas ! i)) of
           None \<Rightarrow> None
         | Some d \<Rightarrow>
             let ds' = take 4 (d # ds);
                 cur_order = length ds';
                 x' = fold (\<lambda>j acc. vadd acc (smul (coeff cur_order sigmas i j) (ds' ! j)))
                        [0..<cur_order] x
             in Some (x', ds')))"

fun lms_loop ::
  "(nat \<Rightarrow> real list \<Rightarrow> nat \<Rightarrow> nat \<Rightarrow> real) \<Rightarrow> (real list \<Rightarrow> real \<Rightarrow> real list) \<Rightarrow> real list
     \<Rightarrow> nat list \<Rightarrow> real list \<times> real list list \<Rightarrow> (real list \<times> real list list) option" where
  "lms_loop coeff D sigmas [] s = Some s"
| "lms_loop coeff D sigmas (i # is) s =
     (case lms_step coeff D sigmas i s of
        None \<Rightarrow> None
      | Some s' \<Rightarrow> lms_loop coeff D sigmas is s')"

definition sample_lms ::
  "(nat \<Rightarrow> real list \<Rightarrow> nat \<Rightarrow> nat \<Rightarrow> real) \<Rightarrow> (real list \<Rightarrow> real \<Rightarrow> real list) \<Rightarrow> real list
     \<Rightarrow> real list \<Rightarrow> real list option" where
  "sample_lms coeff D x sigmas =
     map_option fst (lms_loop coeff D sigmas [0..<length sigmas - 1] (x, []))"

section \<open>The training script \<^verbatim>\<open>train.py\<close>\<close>

subsection \<open>Data\<close>

text \<open>
  The values a checkpoint dictionary holds: parameter tensors (flattened), the
  optimizer's state dictionary (opaque, of type \<open>'o\<close>), the state dictionaries of
  the two schedules and of the GNS accumulator, ints and \<^verbatim>\<open>None\<close>. A checkpoint
  is the dictionary \<^verbatim>\<open>obj\<close> of \<^verbatim>\<open>save()\<close>, kept as an association list in
  insertion order.
\<close>

datatype 'o pyval =
    Tensors "real list"
  | OptState 'o
  | SchedState inverse_lr
  | EmaSchedState ema_warmup
  | GnsState gns_state
  | IntVal int
  | NoneVal

type_synonym 'o ckpt = "(string \<times> 'o pyval) list"

text \<open>The command-line arguments the modelled code reads.\<close>

record args =
  demo_every :: int
  evaluate_every :: int
  save_every :: int
  gns :: bool
  name :: string
  resume :: "string option"

record accelerator =
  is_main_process :: bool
  is_local_main_process :: bool
  num_processes :: int

text \<open>
  The external collaborators of the loop, as functions: the initial parameters and
  optimizer state, the net effect of \<^verbatim>\<open>zero_grad\<close>, loss, \<^verbatim>\<open>backward\<close> and
  \<^verbatim>\<open>opt.step()\<close> on parameters and optimizer state, the gathered gradient
  statistics, the batch length \<^verbatim>\<open>reals.shape[0]\<close>, the FID and KID of the EMA
  model, and the text Python prints for a float.
\<close>

record ('o, 'b) env =
  init_model :: "real list"
  init_opt :: 'o
  init_gns :: gns_state
  opt_step :: "'b \<Rightarrow> real list \<Rightarrow> 'o \<Rightarrow> real list \<times> 'o"
  grad_stats :: "'b \<Rightarrow> real list \<Rightarrow> real \<times> real"
  batch_len :: "'b \<Rightarrow> int"
  fid_kid :: "real list \<Rightarrow> real \<times> real"
  str_float :: "real \<Rightarrow> string"

text \<open>The calls of one run, in the order they are made.\<close>

datatype 'o event =
    EvOptStep
  | EvSchedStep
  | EvEmaUpdate real
  | EvEmaSchedStep
  | EvDemo string
  | EvEvaluate int
  | EvSave string "'o ckpt"

record 'o train_state =
  model :: "real list"
  model_ema :: "real list"
  opt :: 'o
  sched :: inverse_lr
  ema_sched :: ema_warmup
  gns_stats :: "gns_state option"
  epoch :: int
  step :: int
  ckpt_files :: "(string \<times> 'o ckpt) list"
  text_files :: "(string \<times> string list) list"
  trace :: "'o event list"

subsection \<open>Checkpoint access\<close>

definition getitem :: "'o ckpt \<Rightarrow> string \<Rightarrow> error + 'o pyval" where
  "getitem d k = (case map_of d k of None \<Rightarrow> Inl (KeyError k) | Some v \<Rightarrow> Inr v)"

definition torch_load :: "(string \<times> 'o ckpt) list \<Rightarrow> string \<Rightarrow> error + 'o ckpt" where
  "torch_load files path =
     (case map_of files path of None \<Rightarrow> Inl (FileNotFoundError path) | Some c \<Rightarrow> Inr c)"

text \<open>
  \<^verbatim>\<open>load_state_dict\<close> of each component replaces the component's state by the
  dictionary's contents; parameters of another shape, or a value of another kind,
  raise.
\<close>

definition load_params :: "real list \<Rightarrow> 'o pyval \<Rightarrow> error + real list" where
  "load_params cur v =
     (case v of
        Tensors t \<Rightarrow> if length t = length cur then Inr t else Inl ShapeMismatch
      | _ \<Rightarrow> Inl TypeError)"

definition load_opt :: "'o pyval \<Rightarrow> error + 'o" where
  "load_opt v = (case v of OptState s \<Rightarrow> Inr s | _ \<Rightarrow> Inl TypeError)"

definition load_sched :: "'o pyval \<Rightarrow> error + inverse_lr" where
  "load_sched v = (case v of SchedState s \<Rightarrow> Inr s | _ \<Rightarrow> Inl TypeError)"

definition load_ema_sched :: "'o pyval \<Rightarrow> error + ema_warmup" where
  "load_ema_sched v = (case v of EmaSchedState s \<Rightarrow> Inr s | _ \<Rightarrow> Inl TypeError)"

definition load_gns :: "'o pyval \<Rightarrow> error + gns_state" where
  "load_gns v = (case v of GnsState s \<Rightarrow> Inr s | _ \<Rightarrow> Inl TypeError)"

text \<open>The expression \<^verbatim>\<open>ckpt[k] + 1\<close>.\<close>

definition plus_one :: "'o pyval \<Rightarrow> error + int" where
  "plus_one v = (case v of IntVal i \<Rightarrow> Inr (i + 1) | _ \<Rightarrow> Inl TypeError)"

subsection \<open>Set-up and resume (lines 74--125)\<close>

text \<open>Line 75: \<^verbatim>\<open>utils.InverseLR(opt, inv_gamma=50000, power=1/2, warmup=0.99)\<close>.\<close>

definition main_sched :: inverse_lr where
  "main_sched = \<lparr>inv_gamma = 50000, lr_power = 1 / 2, warmup = 0.99, last_epoch = 0\<rparr>"

text \<open>Line 76: \<^verbatim>\<open>utils.EMAWarmup(power=3/4, max_value=0.999)\<close>.\<close>

definition main_ema_sched :: ema_warmup where
  "main_ema_sched = \<lparr>ew_power = 3 / 4, ew_max_value = 0.999, ew_step = 0\<rparr>"

definition main_init ::
  "('o, 'b) env \<Rightarrow> args \<Rightarrow> (string \<times> 'o ckpt) list \<Rightarrow> (string \<times> string list) list
     \<Rightarrow> 'o train_state" where
  "main_init e a cfiles tfiles =
     \<lparr>model = init_model e,
      model_ema = init_model e,
      opt = init_opt e,
      sched = main_sched,
      ema_sched = main_ema_sched,
      gns_stats = (if gns a then Some (init_gns e) else None),
      epoch = 0,
      step = 0,
      ckpt_files = cfiles,
      text_files = tfiles,
      trace = []\<rparr>"

text \<open>
  The block \<^verbatim>\<open>if args.resume: ... else: epoch = 0; step = 0\<close>. An absent or
  empty \<^verbatim>\<open>--resume\<close> is falsy.
\<close>

definition main_resume :: "args \<Rightarrow> 'o train_state \<Rightarrow> error + 'o train_state" where
  "main_resume a st =
     (case resume a of
        None \<Rightarrow> Inr (st\<lparr>epoch := 0, step := 0\<rparr>)
      | Some path \<Rightarrow>
          if path = [] then Inr (st\<lparr>epoch := 0, step := 0\<rparr>)
          else
            ebind (torch_load (ckpt_files st) path) (\<lambda>ckpt.
            ebind (ebind (getitem ckpt ''model'') (load_params (model st))) (\<lambda>m.
            ebind (ebind (getitem ckpt ''model_ema'') (load_params (model_ema st))) (\<lambda>me.
            ebind (ebind (getitem ckpt ''opt'') load_opt) (\<lambda>os.
            ebind (ebind (getitem ckpt ''sched'') load_sched) (\<lambda>ls.
            ebind (ebind (getitem ckpt ''ema_sched'') load_ema_sched) (\<lambda>es.
            ebind (ebind (getitem ckpt ''epoch'') plus_one) (\<lambda>ep.
            ebind (ebind (getitem ckpt ''step'') plus_one) (\<lambda>sp.
            ebind
              (case map_of ckpt ''gns_stats'' of
                 None \<Rightarrow> Inr (gns_stats st)
               | Some v \<Rightarrow>
                   if gns a \<and> v \<noteq> NoneVal
                   then ebind (load_gns v) (\<lambda>g. Inr (Some g))
                   else Inr (gns_stats st)) (\<lambda>gs.
            Inr (st\<lparr>model := m, model_ema := me, opt := os, sched := ls, ema_sched := es,
                    gns_stats := gs, epoch := ep, step := sp\<rparr>)))))))))))"

definition metrics_log_filepath :: "args \<Rightarrow> string" where
  "metrics_log_filepath a = name a @ ''_metrics.csv''"

text \<open>
  Lines 119--125: on the main process the metrics log is opened for append when
  it exists, and created with the header line otherwise. A text file is the list
  of its lines.
\<close>

definition open_metrics_log ::
  "accelerator \<Rightarrow> args \<Rightarrow> (string \<times> string list) list \<Rightarrow> (string \<times> string list) list" where
  "open_metrics_log acc a files =
     (if is_main_process acc then
        (case map_of files (metrics_log_filepath a) of
           Some ls \<Rightarrow> files
         | None \<Rightarrow>
             AList.update (metrics_log_filepath a)
               [print_sep '','' [''step'', ''fid'', ''kid'']] files)
      else files)"

definition main_setup ::
  "('o, 'b) env \<Rightarrow> accelerator \<Rightarrow> args \<Rightarrow> (string \<times> 'o ckpt) list
     \<Rightarrow> (string \<times> string list) list \<Rightarrow> error + 'o train_state" where
  "main_setup e acc a cfiles tfiles =
     ebind (main_resume a (main_init e a cfiles tfiles)) (\<lambda>st.
       Inr (st\<lparr>text_files := open_metrics_log acc a (text_files st)\<rparr>))"

subsection \<open>The periodic actions (lines 130--184)\<close>

text \<open>
  \<^verbatim>\<open>demo()\<close> samples a grid and writes it to the file named after the step; the
  image itself is not part of the state.
\<close>

definition demo_filename :: "args \<Rightarrow> int \<Rightarrow> string" where
  "demo_filename a s = name a @ ''_demo_'' @ fmt08 s @ ''.png''"

definition demo :: "args \<Rightarrow> 'o train_state \<Rightarrow> 'o train_state" where
  "demo a st = st\<lparr>trace := trace st @ [EvDemo (demo_filename a (step st))]\<rparr>"

text \<open>The handle \<^verbatim>\<open>metrics_log_file\<close> writes at the end of the file.\<close>

definition append_line ::
  "(string \<times> string list) list \<Rightarrow> string \<Rightarrow> string \<Rightarrow> (string \<times> string list) list" where
  "append_line files path l =
     AList.update path ((case map_of files path of None \<Rightarrow> [] | Some ls \<Rightarrow> ls) @ [l]) files"

definition metrics_row :: "('o, 'b) env \<Rightarrow> int \<Rightarrow> real \<Rightarrow> real \<Rightarrow> string" where
  "metrics_row e s fid kid = print_sep '','' [str_int s, str_float e fid, str_float e kid]"

definition evaluate ::
  "('o, 'b) env \<Rightarrow> accelerator \<Rightarrow> args \<Rightarrow> 'o train_state \<Rightarrow> 'o train_state" where
  "evaluate e acc a st =
     (case fid_kid e (model_ema st) of
        (fid, kid) \<Rightarrow>
          st\<lparr>text_files :=
               (if is_main_process acc
                then append_line (text_files st) (metrics_log_filepath a)
                       (metrics_row e (step st) fid kid)
                else text_files st),
             trace := trace st @ [EvEvaluate (step st)]\<rparr>)"

text \<open>The dictionary \<^verbatim>\<open>obj\<close> of \<^verbatim>\<open>save()\<close>, lines 171--180.\<close>

definition save_obj :: "'o train_state \<Rightarrow> 'o ckpt" where
  "save_obj st =
     [(''model'', Tensors (model st)),
      (''model_ema'', Tensors (model_ema st)),
      (''opt'', OptState (opt st)),
      (''sched'', SchedState (sched st)),
      (''ema_sched'', EmaSchedState (ema_sched st)),
      (''epoch'', IntVal (epoch st)),
      (''step'', IntVal (step st)),
      (''gns_stats'', (case gns_stats st of None \<Rightarrow> NoneVal | Some g \<Rightarrow> GnsState g))]"

definition ckpt_filename :: "args \<Rightarrow> int \<Rightarrow> string" where
  "ckpt_filename a s = name a @ ''_'' @ fmt08 s @ ''.pth''"

text \<open>\<^verbatim>\<open>accelerator.save\<close> writes the file on the main process.\<close>

definition save :: "accelerator \<Rightarrow> args \<Rightarrow> 'o train_state \<Rightarrow> 'o train_state" where
  "save acc a st =
     (let filename = ckpt_filename a (step st); obj = save_obj st
      in st\<lparr>ckpt_files :=
               (if is_main_process acc then AList.update filename obj (ckpt_files st)
                else ckpt_files st),
             trace := trace st @ [EvSave filename obj]\<rparr>)"

subsection \<open>The training loop (lines 185--230)\<close>

text \<open>Lines 220--227: the three trigger checks, in source order.\<close>

definition periodic ::
  "('o, 'b) env \<Rightarrow> accelerator \<Rightarrow> args \<Rightarrow> 'o train_state \<Rightarrow> error + 'o train_state" where
  "periodic e acc a st =
     ebind (py_mod (step st) (demo_every a)) (\<lambda>r1.
       let st1 = (if r1 = 0 then demo a st else st);
           st2 = (if step st1 > 0 \<and> evaluate_every a > 0
                     \<and> step st1 mod evaluate_every a = 0
                  then evaluate e acc a st1 else st1)
       in if step st2 > 0
          then ebind (py_mod (step st2) (save_every a)) (\<lambda>r3.
                 Inr (if r3 = 0 then save acc a st2 else st2))
          else Inr st2)"

text \<open>
  Lines 193--195: with \<^verbatim>\<open>--gns\<close> the accumulator is updated from the gathered
  statistics, with the sizes \<^verbatim>\<open>reals.shape[0]\<close> and
  \<^verbatim>\<open>reals.shape[0] * accelerator.num_processes\<close>.
\<close>

definition gns_measure ::
  "('o, 'b) env \<Rightarrow> accelerator \<Rightarrow> args \<Rightarrow> 'b \<Rightarrow> 'o train_state \<Rightarrow> error + gns_state option" where
  "gns_measure e acc a batch st =
     (if gns a then
        (case gns_stats st of
           None \<Rightarrow> Inl TypeError
         | Some g \<Rightarrow>
             (case grad_stats e batch (model st) of
                (sq_norm_small_batch, sq_norm_large_batch) \<Rightarrow>
                  ebind (update_gns g sq_norm_small_batch sq_norm_large_batch
                           (batch_len e batch) (batch_len e batch * num_processes acc))
                    (\<lambda>g'. Inr (Some g'))))
      else Inr (gns_stats st))"

text \<open>
  Lines 196--200: \<^verbatim>\<open>opt.step()\<close>, \<^verbatim>\<open>sched.step()\<close>,
  \<^verbatim>\<open>ema_decay = ema_sched.get_value()\<close>,
  \<^verbatim>\<open>utils.ema_update(model, model_ema, ema_decay)\<close>, \<^verbatim>\<open>ema_sched.step()\<close>.
\<close>

definition optimizer_update ::
  "('o, 'b) env \<Rightarrow> 'b \<Rightarrow> gns_state option \<Rightarrow> 'o train_state \<Rightarrow> 'o train_state" where
  "optimizer_update e batch gs st =
     (case opt_step e batch (model st) (opt st) of
        (m, os) \<Rightarrow>
          let ema_decay = get_value (ema_sched st)
          in st\<lparr>model := m,
                model_ema := ema_update m (model_ema st) ema_decay,
                opt := os,
                sched := sched_step (sched st),
                ema_sched := ema_sched_step (ema_sched st),
                gns_stats := gs,
                trace := trace st @
                  [EvOptStep, EvSchedStep, EvEmaUpdate ema_decay, EvEmaSchedStep]\<rparr>)"

text \<open>
  Lines 187--229, the body of the \<^verbatim>\<open>for\<close> loop. The console and wandb logging
  of lines 202--218 changes no state and is left out.
\<close>

definition train_step ::
  "('o, 'b) env \<Rightarrow> accelerator \<Rightarrow> args \<Rightarrow> 'b \<Rightarrow> 'o train_state \<Rightarrow> error + 'o train_state" where
  "train_step e acc a batch st =
     ebind (gns_measure e acc a batch st) (\<lambda>gs.
     ebind (periodic e acc a (optimizer_update e batch gs st)) (\<lambda>st2.
       Inr (st2\<lparr>step := step st2 + 1\<rparr>)))"

fun train_batches ::
  "('o, 'b) env \<Rightarrow> accelerator \<Rightarrow> args \<Rightarrow> 'b list \<Rightarrow> 'o train_state \<Rightarrow> error + 'o train_state" where
  "train_batches e acc a [] st = Inr st"
| "train_batches e acc a (b # bs) st =
     ebind (train_step e acc a b st) (train_batches e acc a bs)"

text \<open>One pass over the data loader, then \<^verbatim>\<open>epoch += 1\<close>.\<close>

definition train_epoch ::
  "('o, 'b) env \<Rightarrow> accelerator \<Rightarrow> args \<Rightarrow> 'b list \<Rightarrow> 'o train_state \<Rightarrow> error + 'o train_state" where
  "train_epoch e acc a bs st =
     ebind (train_batches e acc a bs st) (\<lambda>st'. Inr (st'\<lparr>epoch := epoch st' + 1\<rparr>))"

text \<open>
  \<^verbatim>\<open>while True\<close> never returns; \<open>train_loop\<close> is the state after the given
  finite sequence of passes (each pass is the list of batches the shuffled data
  loader yields).
\<close>

fun train_loop ::
  "('o, 'b) env \<Rightarrow> accelerator \<Rightarrow> args \<Rightarrow> 'b list list \<Rightarrow> 'o train_state
     \<Rightarrow> error + 'o train_state" where
  "train_loop e acc a [] st = Inr st"
| "train_loop e acc a (bs # passes) st =
     ebind (train_epoch e acc a bs st) (train_loop e acc a passes)"

definition main ::
  "('o, 'b) env \<Rightarrow> accelerator \<Rightarrow> args \<Rightarrow> (string \<times> 'o ckpt) list
     \<Rightarrow> (string \<times> string list) list \<Rightarrow> 'b list list \<Rightarrow> error + 'o train_state" where
  "main e acc a cfiles tfiles passes =
     ebind (main_setup e acc a cfiles tfiles) (train_loop e acc a passes)"

subsection \<open>Events of the EMA update\<close>

text \<open>The optimizer step, the EMA update and the step of the EMA schedule.\<close>

fun is_ema_event :: "'o event \<Rightarrow> bool" where
  "is_ema_event EvOptStep = True"
| "is_ema_event (EvEmaUpdate d) = True"
| "is_ema_event EvEmaSchedStep = True"
| "is_ema_event ev = False"

section \<open>Concrete inputs\<close>

text \<open>
  A single-process run with GNS measurement at step 1000 of epoch 3, with the
  intervals 500, 1000 and 1000, so that all three periodic actions are due; and
  a fresh process started with \<^verbatim>\<open>--resume\<close> on the checkpoint that run saves.
\<close>

definition ex_env :: "(nat, nat) env" where
  "ex_env =
     \<lparr>init_model = [0, 0],
      init_opt = 0,
      init_gns = \<lparr>gns_beta = 1 / 2, gns_eps = 1 / 100, ema_sq_norm = 0, ema_var = 0\<rparr>,
      opt_step = (\<lambda>b m os. (map (\<lambda>w. w + 1) m, os + 1)),
      grad_stats = (\<lambda>b m. (2, 1)),
      batch_len = (\<lambda>b. 64),
      fid_kid = (\<lambda>m. (3, 4)),
      str_float = (\<lambda>r. ''x'')\<rparr>"

definition ex_acc :: accelerator where
  "ex_acc = \<lparr>is_main_process = True, is_local_main_process = True, num_processes = 1\<rparr>"

definition ex_args :: args where
  "ex_args =
     \<lparr>demo_every = 500, evaluate_every = 1000, save_every = 1000, gns = True,
      name = ''model'', resume = None\<rparr>"

definition ex_state :: "nat train_state" where
  "ex_state =
     \<lparr>model = [1, 2],
      model_ema = [1, 1],
      opt = 7,
      sched = main_sched\<lparr>last_epoch := 1000\<rparr>,
      ema_sched = main_ema_sched\<lparr>ew_step := 1000\<rparr>,
      gns_stats = Some (init_gns ex_env),
      epoch = 3,
      step = 1000,
      ckpt_files = [],
      text_files = [(''model_metrics.csv'', [''step,fid,kid''])],
      trace = []\<rparr>"

definition ex_resume_args :: args where
  "ex_resume_args = ex_args\<lparr>resume := Some (ckpt_filename ex_args 1000)\<rparr>"

definition ex_fresh :: "nat train_state" where
  "ex_fresh =
     main_init ex_env ex_resume_args (ckpt_files (save ex_acc ex_args ex_state)) []"

text \<open>
  The same run with an accumulator that has seen updates, and the fresh process
  resumed on the checkpoint it saves.
\<close>

definition ex_gns :: gns_state where
  "ex_gns = \<lparr>gns_beta = 1 / 2, gns_eps = 1 / 100, ema_sq_norm = 3, ema_var = 5\<rparr>"

definition ex_state_gns :: "nat train_state" where
  "ex_state_gns = ex_state\<lparr>gns_stats := Some ex_gns\<rparr>"

definition ex_fresh_gns :: "nat train_state" where
  "ex_fresh_gns =
     main_init ex_env ex_resume_args (ckpt_files (save ex_acc ex_args ex_state_gns)) []"

section \<open>Properties of the EMA warmup schedule\<close>

lemma decay_base_mono: "m \<le> n \<Longrightarrow> 1 - 1 / (real m + 1) \<le> 1 - 1 / (real n + 1)"
  by (simp add: frac_le)

lemma decay_base_nonneg: "0 \<le> 1 - 1 / (real n + 1)"
  by simp

lemma decay_mono:
  assumes "0 < pw" and "m \<le> n"
  shows "decay pw mx m \<le> decay pw mx n"
proof -
  have "(1 - 1 / (real m + 1)) powr pw \<le> (1 - 1 / (real n + 1)) powr pw"
    using assms decay_base_mono[OF assms(2)] decay_base_nonneg[of m]
    by (intro powr_mono2) simp_all
  then show ?thesis
    unfolding decay_def by (rule min.mono[OF order_refl])
qed

lemma decay_le_max: "decay pw mx n \<le> mx"
  by (simp add: decay_def)

lemma decay_zero: "0 < pw \<Longrightarrow> decay pw mx 0 = min mx 0"
  by (simp add: decay_def)

text \<open>
  Claim C8. For a positive power, the EMA warmup decay is
  \<open>decay(step) = min(max_value, (1 - 1/(step + 1))^power)\<close> at every step; it is
  monotone non-decreasing in the step and bounded above by \<open>max_value\<close>; the
  schedule built at line 76 has \<open>power = 3/4\<close> and \<open>max_value = 0.999\<close>, and its
  decay at step 0 is exactly 0. (Arithmetic over the reals.)
\<close>

theorem ema_decay_schedule:
  assumes "0 < pw"
  shows "decay pw mx n = min mx ((1 - 1 / (real n + 1)) powr pw)
     \<and> (m \<le> n \<longrightarrow> decay pw mx m \<le> decay pw mx n)
     \<and> decay pw mx n \<le> mx
     \<and> ew_power main_ema_sched = 3 / 4 \<and> ew_max_value main_ema_sched = 0.999
     \<and> decay (ew_power main_ema_sched) (ew_max_value main_ema_sched) 0 = 0"
  using assms decay_mono[of pw m n mx] decay_le_max[of pw mx n]
  by (simp add: decay_def main_ema_sched_def)

theorem ema_decay_schedule_witness:
  "(0::real) < 3 / 4 \<and> (0::nat) \<le> 1000
   \<and> decay (3 / 4) 0.999 0 \<le> decay (3 / 4) 0.999 1000
   \<and> decay (3 / 4) 0.999 1000 \<le> 0.999
   \<and> decay (3 / 4) 0.999 0 = 0"
  using ema_decay_schedule[of "3 / 4" "0.999" 1000 0]
  by (simp add: main_ema_sched_def)

section \<open>Properties of the noise schedule\<close>

lemma karras_sigma_first:
  assumes "0 < sigma_max" "rho \<noteq> 0"
  shows "karras_sigma n sigma_min sigma_max rho 0 = sigma_max"
  using assms by (simp add: karras_sigma_def powr_powr)

lemma karras_base_less:
  fixes A B :: real
  assumes "B < A" "i < j" "j < n"
  shows "A + (real j / real (n - 1)) * (B - A) < A + (real i / real (n - 1)) * (B - A)"
proof -
  have n: "0 < real (n - 1)" using assms by simp
  have lt: "real i / real (n - 1) < real j / real (n - 1)"
    using assms n by (simp add: divide_strict_right_mono)
  have neg: "B - A < 0" using assms by simp
  have "(real j / real (n - 1)) * (B - A) < (real i / real (n - 1)) * (B - A)"
    by (rule mult_strict_right_mono_neg[OF lt neg])
  then show ?thesis by (rule add_strict_left_mono)
qed

lemma karras_base_ge:
  fixes A B :: real
  assumes "B < A" "j < n"
  shows "B \<le> A + (real j / real (n - 1)) * (B - A)"
proof -
  have "real j \<le> real (n - 1)" using assms by simp
  then have t: "real j / real (n - 1) \<le> 1"
    by (cases "n - 1 = 0") simp_all
  have "A + t * (B - A) = B + (1 - t) * (A - B)" for t :: real
    by (simp add: algebra_simps)
  then have "A + (real j / real (n - 1)) * (B - A) = B + (1 - real j / real (n - 1)) * (A - B)" .
  moreover have "0 \<le> (1 - real j / real (n - 1)) * (A - B)"
    using t assms by (intro mult_nonneg_nonneg) simp_all
  ultimately show ?thesis by simp
qed

lemma karras_sigma_less:
  assumes "0 < sigma_min" "sigma_min < sigma_max" "0 < rho" "i < j" "j < n"
  shows "karras_sigma n sigma_min sigma_max rho j < karras_sigma n sigma_min sigma_max rho i"
proof -
  let ?A = "sigma_max powr (1 / rho)" and ?B = "sigma_min powr (1 / rho)"
  have BA: "?B < ?A" using assms by (intro powr_less_mono2) simp_all
  have B0: "0 < ?B" using assms by simp
  have "0 \<le> ?A + (real j / real (n - 1)) * (?B - ?A)"
    by (rule order_trans[OF less_imp_le[OF B0] karras_base_ge[OF BA assms(5)]])
  then show ?thesis
    unfolding karras_sigma_def
    using karras_base_less[OF BA assms(4,5)] assms(3)
    by (intro powr_less_mono2) simp_all
qed

lemma karras_sigma_pos:
  assumes "0 < sigma_min" "sigma_min < sigma_max" "0 < rho" "j < n"
  shows "0 < karras_sigma n sigma_min sigma_max rho j"
proof -
  let ?A = "sigma_max powr (1 / rho)" and ?B = "sigma_min powr (1 / rho)"
  have BA: "?B < ?A" using assms by (intro powr_less_mono2) simp_all
  have B0: "0 < ?B" using assms by simp
  have "0 < ?A + (real j / real (n - 1)) * (?B - ?A)"
    by (rule less_le_trans[OF B0 karras_base_ge[OF BA assms(4)]])
  then show ?thesis
    unfolding karras_sigma_def by simp
qed

lemma karras_sorted:
  assumes "0 < sigma_min" "sigma_min < sigma_max" "0 < rho"
  shows "sorted_wrt (>) (map (karras_sigma n sigma_min sigma_max rho) [0..<n] @ [0])"
proof -
  have "sorted_wrt (\<lambda>i j. karras_sigma n sigma_min sigma_max rho i
            > karras_sigma n sigma_min sigma_max rho j) [0..<n]"
    by (rule sorted_wrt_mono_rel[OF _ sorted_wrt_upt])
       (use assms in \<open>auto intro: karras_sigma_less\<close>)
  then show ?thesis
    using assms by (auto simp: sorted_wrt_append sorted_wrt_map intro: karras_sigma_pos)
qed

text \<open>
  Claim C5. For \<open>0 < sigma_min < sigma_max\<close> and \<open>0 < rho\<close>, the noise-schedule
  builder returns, for \<open>n \<ge> 2\<close> steps, a sequence of \<open>n\<close> sigmas followed by an
  appended 0: its length is \<open>n + 1\<close>, it is strictly decreasing, its first
  element is exactly \<open>sigma_max\<close> and its last element is exactly 0; for one step
  the result is \<open>[sigma_max, 0]\<close>, with no division by \<open>n - 1 = 0\<close>. The
  instance \<open>build(10, 0.01, 80, 7.0)\<close> has length 11, first element 80 and last
  element 0. (Arithmetic over the reals.)
\<close>

theorem karras_schedule:
  assumes "0 < sigma_min" "sigma_min < sigma_max" "0 < rho"
  shows "(2 \<le> n \<longrightarrow>
           (\<exists>ss. get_sigmas_karras n sigma_min sigma_max rho = Inr ss
              \<and> length ss = n + 1 \<and> sorted_wrt (>) ss \<and> hd ss = sigma_max \<and> last ss = 0))
       \<and> get_sigmas_karras 1 sigma_min sigma_max rho = Inr [sigma_max, 0]"
proof -
  have "hd (map (karras_sigma n sigma_min sigma_max rho) [0..<n] @ [0]) = sigma_max" if "2 \<le> n"
  proof -
    from that have "[0..<n] = 0 # [1..<n]" by (simp add: upt_conv_Cons)
    then show ?thesis using assms by (simp add: karras_sigma_first)
  qed
  then show ?thesis
    using assms karras_sorted[OF assms, of n] by (simp add: get_sigmas_karras_def)
qed

theorem karras_schedule_witness:
  "(0::real) < 0.01 \<and> (0.01::real) < 80 \<and> (0::real) < 7 \<and> (2::nat) \<le> 10 \<and>
   (\<exists>ss. get_sigmas_karras 10 0.01 80 7 = Inr ss
      \<and> length ss = 11 \<and> sorted_wrt (>) ss \<and> hd ss = 80 \<and> last ss = 0)"
  using karras_schedule[of "0.01" 80 7 10] by simp

section \<open>The sampler under the identity denoiser\<close>

lemma to_d_identity:
  "sigma \<noteq> 0 \<Longrightarrow> to_d x sigma x = Some (replicate (length x) 0)"
  by (simp add: to_d_def map2_map_map[symmetric] zip_same_conv_map map_replicate_const comp_def del: map2_map_map)

lemma vadd_smul_zero: "vadd x (smul c (replicate (length x) 0)) = x"
  by (induction x) (simp_all add: vadd_def smul_def)

lemma fold_zero_history:
  assumes "\<forall>j \<in> set js. ds ! j = replicate (length x) 0"
  shows "fold (\<lambda>j acc. vadd acc (smul (c j) (ds ! j))) js x = x"
  using assms by (induction js) (simp_all add: vadd_smul_zero)

lemma all_nth_const:
  assumes "set ys \<subseteq> {z}"
  shows "\<forall>j \<in> set [0..<length ys]. ys ! j = z"
proof
  fix j assume "j \<in> set [0..<length ys]"
  then have "ys ! j \<in> set ys" by simp
  with assms show "ys ! j = z" by blast
qed

lemma lms_step_identity:
  assumes "sigmas ! i \<noteq> 0" and "set ds \<subseteq> {replicate (length x) 0}"
  shows "lms_step coeff (\<lambda>x sigma. x) sigmas i (x, ds)
           = Some (x, take 4 (replicate (length x) 0 # ds))"
proof -
  let ?ds' = "take 4 (replicate (length x) 0 # ds)"
  have "set ?ds' \<subseteq> {replicate (length x) 0}"
    using assms(2) set_take_subset[of 4 "replicate (length x) 0 # ds"] by auto
  then have "\<forall>j \<in> set [0..<length ?ds']. ?ds' ! j = replicate (length x) 0"
    by (rule all_nth_const)
  then have "fold (\<lambda>j acc. vadd acc (smul (coeff (length ?ds') sigmas i j) (?ds' ! j)))
               [0..<length ?ds'] x = x"
    by (rule fold_zero_history)
  then show ?thesis
    using assms(1) by (simp add: lms_step_def to_d_identity Let_def)
qed

lemma lms_loop_identity:
  assumes "\<forall>i \<in> set is. sigmas ! i \<noteq> 0" and "set ds \<subseteq> {replicate (length x) 0}"
  shows "\<exists>ds'. lms_loop coeff (\<lambda>x sigma. x) sigmas is (x, ds) = Some (x, ds')"
  using assms
proof (induction "is" arbitrary: ds)
  case Nil
  then show ?case by simp
next
  case (Cons i "is")
  let ?ds' = "take 4 (replicate (length x) 0 # ds)"
  have "set ?ds' \<subseteq> {replicate (length x) 0}"
    using Cons.prems(2) set_take_subset[of 4 "replicate (length x) 0 # ds"] by auto
  with Cons show ?case
    by (simp add: lms_step_identity)
qed

text \<open>
  Claim C7. For every initial state \<open>x\<close>, every choice of multistep weights and
  every noise schedule whose sigmas before the last are non-zero, the linear
  multistep sampler run with the denoiser that returns its input unchanged
  computes the zero derivative at every step, and its final output is the
  initial \<open>x\<close>.
\<close>

theorem sample_lms_identity:
  assumes "\<forall>i < length sigmas - 1. sigmas ! i \<noteq> 0"
  shows "sample_lms coeff (\<lambda>x sigma. x) x sigmas = Some x
     \<and> (\<forall>i < length sigmas - 1. to_d x (sigmas ! i) x = Some (replicate (length x) 0))"
proof -
  obtain ds' where "lms_loop coeff (\<lambda>x sigma. x) sigmas [0..<length sigmas - 1] (x, []) = Some (x, ds')"
    using lms_loop_identity[of "[0..<length sigmas - 1]" sigmas "[]" x coeff] assms by auto
  then show ?thesis
    using assms by (simp add: sample_lms_def to_d_identity)
qed

theorem sample_lms_identity_witness:
  "[80, 1 / 100, 0 :: real] ! 0 \<noteq> 0 \<and> [80, 1 / 100, 0 :: real] ! 1 \<noteq> 0
   \<and> length [80, 1 / 100, 0 :: real] - 1 = 2
   \<and> sample_lms (\<lambda>order sigmas i j. 1) (\<lambda>x sigma. x) [3, -2] [80, 1 / 100, 0] = Some [3, -2]"
proof -
  have h: "\<forall>i < length [80, 1 / 100, 0 :: real] - 1. [80, 1 / 100, 0 :: real] ! i \<noteq> 0"
    by (simp add: less_Suc_eq)
  from sample_lms_identity[OF h] show ?thesis by simp
qed

section \<open>The periodic actions\<close>

lemma demo_simps:
  "step (demo a st) = step st"
  "trace (demo a st) = trace st @ [EvDemo (demo_filename a (step st))]"
  "save_obj (demo a st) = save_obj st"
  "text_files (demo a st) = text_files st"
  "model_ema (demo a st) = model_ema st"
  by (simp_all add: demo_def save_obj_def)

lemma evaluate_simps:
  "step (evaluate e acc a st) = step st"
  "trace (evaluate e acc a st) = trace st @ [EvEvaluate (step st)]"
  "save_obj (evaluate e acc a st) = save_obj st"
  "text_files (evaluate e acc a st) =
     (if is_main_process acc
      then append_line (text_files st) (metrics_log_filepath a)
             (metrics_row e (step st) (fst (fid_kid e (model_ema st))) (snd (fid_kid e (model_ema st))))
      else text_files st)"
  by (simp_all add: evaluate_def save_obj_def split: prod.split)

lemma save_simps:
  "step (save acc a st) = step st"
  "trace (save acc a st) = trace st @ [EvSave (ckpt_filename a (step st)) (save_obj st)]"
  "text_files (save acc a st) = text_files st"
  by (simp_all add: save_def Let_def)

lemma periodic_cases:
  "periodic e acc a st =
     (if demo_every a = 0 then Inl ZeroDivisionError
      else if 0 < step st \<and> save_every a = 0 then Inl ZeroDivisionError
      else Inr
        (let st1 = (if step st mod demo_every a = 0 then demo a st else st);
             st2 = (if 0 < step st \<and> 0 < evaluate_every a \<and> step st mod evaluate_every a = 0
                    then evaluate e acc a st1 else st1)
         in if 0 < step st \<and> step st mod save_every a = 0 then save acc a st2 else st2))"
  by (simp add: periodic_def ebind_def py_mod_def Let_def demo_simps evaluate_simps)

lemma periodic_trace:
  assumes "periodic e acc a st = Inr st'"
  shows "trace st' = trace st
     @ (if step st mod demo_every a = 0 then [EvDemo (demo_filename a (step st))] else [])
     @ (if 0 < step st \<and> 0 < evaluate_every a \<and> step st mod evaluate_every a = 0
        then [EvEvaluate (step st)] else [])
     @ (if 0 < step st \<and> step st mod save_every a = 0
        then [EvSave (ckpt_filename a (step st)) (save_obj st)] else [])"
  using assms
  by (auto simp: periodic_cases Let_def demo_simps evaluate_simps save_simps split: if_splits)

lemma demo_fields:
  "model (demo a st) = model st"
  "model_ema (demo a st) = model_ema st"
  "opt (demo a st) = opt st"
  "sched (demo a st) = sched st"
  "ema_sched (demo a st) = ema_sched st"
  "gns_stats (demo a st) = gns_stats st"
  "epoch (demo a st) = epoch st"
  by (simp_all add: demo_def)

lemma evaluate_fields:
  "model (evaluate e acc a st) = model st"
  "model_ema (evaluate e acc a st) = model_ema st"
  "opt (evaluate e acc a st) = opt st"
  "sched (evaluate e acc a st) = sched st"
  "ema_sched (evaluate e acc a st) = ema_sched st"
  "gns_stats (evaluate e acc a st) = gns_stats st"
  "epoch (evaluate e acc a st) = epoch st"
  by (simp_all add: evaluate_def split: prod.split)

lemma save_fields:
  "model (save acc a st) = model st"
  "model_ema (save acc a st) = model_ema st"
  "opt (save acc a st) = opt st"
  "sched (save acc a st) = sched st"
  "ema_sched (save acc a st) = ema_sched st"
  "gns_stats (save acc a st) = gns_stats st"
  "epoch (save acc a st) = epoch st"
  by (simp_all add: save_def Let_def)

lemma periodic_fields:
  assumes "periodic e acc a st = Inr st'"
  shows "model st' = model st" "model_ema st' = model_ema st" "opt st' = opt st"
    "sched st' = sched st" "ema_sched st' = ema_sched st" "gns_stats st' = gns_stats st"
    "epoch st' = epoch st" "step st' = step st"
  using assms
  by (auto simp: periodic_cases Let_def demo_fields evaluate_fields save_fields
        demo_simps evaluate_simps save_simps split: if_splits)

lemma periodic_text_files:
  assumes "periodic e acc a st = Inr st'"
  shows "text_files st' =
     (if is_main_process acc \<and> 0 < step st \<and> 0 < evaluate_every a
          \<and> step st mod evaluate_every a = 0
      then append_line (text_files st) (metrics_log_filepath a)
             (metrics_row e (step st) (fst (fid_kid e (model_ema st))) (snd (fid_kid e (model_ema st))))
      else text_files st)"
  using assms
  by (auto simp: periodic_cases Let_def demo_fields demo_simps evaluate_simps save_simps
        split: if_splits)

lemma optimizer_update_simps:
  "step (optimizer_update e b gs st) = step st"
  "epoch (optimizer_update e b gs st) = epoch st"
  "trace (optimizer_update e b gs st) =
     trace st @ [EvOptStep, EvSchedStep, EvEmaUpdate (get_value (ema_sched st)), EvEmaSchedStep]"
  "model (optimizer_update e b gs st) = fst (opt_step e b (model st) (opt st))"
  "model_ema (optimizer_update e b gs st) =
     ema_update (fst (opt_step e b (model st) (opt st))) (model_ema st) (get_value (ema_sched st))"
  "ema_sched (optimizer_update e b gs st) = ema_sched_step (ema_sched st)"
  "sched (optimizer_update e b gs st) = sched_step (sched st)"
  "gns_stats (optimizer_update e b gs st) = gs"
  "text_files (optimizer_update e b gs st) = text_files st"
  "ckpt_files (optimizer_update e b gs st) = ckpt_files st"
  by (simp_all add: optimizer_update_def Let_def split: prod.split)

lemma train_step_InrD:
  assumes "train_step e acc a b st = Inr st'"
  obtains gs st2 where "gns_measure e acc a b st = Inr gs"
    and "periodic e acc a (optimizer_update e b gs st) = Inr st2"
    and "st' = st2\<lparr>step := step st2 + 1\<rparr>"
  using assms by (auto simp: train_step_def ebind_def split: sum.splits)

lemma train_step_InrI:
  assumes "gns_measure e acc a b st = Inr gs"
    and "periodic e acc a (optimizer_update e b gs st) = Inr st2"
  shows "train_step e acc a b st = Inr (st2\<lparr>step := step st2 + 1\<rparr>)"
  using assms by (simp add: train_step_def ebind_def)

lemma periodic_total:
  assumes "demo_every a \<noteq> 0" "0 < step st \<longrightarrow> save_every a \<noteq> 0"
  shows "\<exists>st'. periodic e acc a st = Inr st'"
  using assms by (simp add: periodic_cases)

lemma update_gns_equal: "update_gns g s l n n = Inr g"
  by (simp add: update_gns_def)

lemma gns_measure_single_process:
  assumes "gns a" "gns_stats st = Some g" "num_processes acc = 1"
  shows "gns_measure e acc a b st = Inr (Some g)"
  using assms by (simp add: gns_measure_def update_gns_equal ebind_def split: prod.split)

lemma train_step_total:
  assumes "gns_measure e acc a b st = Inr gs" "demo_every a \<noteq> 0"
    "0 < step st \<longrightarrow> save_every a \<noteq> 0"
  shows "\<exists>st'. train_step e acc a b st = Inr st'"
proof -
  have "0 < step (optimizer_update e b gs st) \<longrightarrow> save_every a \<noteq> 0"
    using assms(3) by (simp add: optimizer_update_simps(1))
  from periodic_total[OF assms(2) this, of e acc] assms(1) show ?thesis
    by (auto simp: train_step_def ebind_def)
qed

lemma ex_gns_measure:
  "gns_measure ex_env ex_acc ex_args 0 ex_state = Inr (Some (init_gns ex_env))"
  by (rule gns_measure_single_process) (simp_all add: ex_args_def ex_state_def ex_acc_def)

lemma ex_train_step: "\<exists>st'. train_step ex_env ex_acc ex_args 0 ex_state = Inr st'"
  by (rule train_step_total[OF ex_gns_measure]) (simp_all add: ex_args_def)

text \<open>
  Claim C2. On every training step that passes the GNS update and whose trigger
  checks divide by no zero interval (\<open>demo_every\<close> is non-zero, and so is
  \<open>save_every\<close> once \<open>step > 0\<close>), the step completes and its calls are, in
  this order:
  the optimizer step, the LR-schedule step, the EMA update and the EMA-schedule
  step; then the demo when \<open>step % demo_every == 0\<close>; then the evaluation when
  \<open>step > 0 and evaluate_every > 0 and step % evaluate_every == 0\<close>; then the
  save when \<open>step > 0 and step % save_every == 0\<close>. Each action fires under its
  own condition alone.
\<close>

theorem periodic_actions:
  assumes "gns_measure e acc a b st = Inr gs" and "demo_every a \<noteq> 0"
    and "0 < step st \<longrightarrow> save_every a \<noteq> 0"
  shows "\<exists>st'. train_step e acc a b st = Inr st' \<and> trace st' = trace st
     @ [EvOptStep, EvSchedStep, EvEmaUpdate (get_value (ema_sched st)), EvEmaSchedStep]
     @ (if step st mod demo_every a = 0 then [EvDemo (demo_filename a (step st))] else [])
     @ (if 0 < step st \<and> 0 < evaluate_every a \<and> step st mod evaluate_every a = 0
        then [EvEvaluate (step st)] else [])
     @ (if 0 < step st \<and> step st mod save_every a = 0
        then [EvSave (ckpt_filename a (step st)) (save_obj (optimizer_update e b gs st))] else [])"
proof -
  have "0 < step (optimizer_update e b gs st) \<longrightarrow> save_every a \<noteq> 0"
    using assms(3) by (simp add: optimizer_update_simps(1))
  then obtain st2 where p: "periodic e acc a (optimizer_update e b gs st) = Inr st2"
    using periodic_total[OF assms(2)] by blast
  have "train_step e acc a b st = Inr (st2\<lparr>step := step st2 + 1\<rparr>)"
    using assms(1) p by (rule train_step_InrI)
  moreover have "trace (st2\<lparr>step := step st2 + 1\<rparr>) = trace st2" by simp
  ultimately show ?thesis
    using periodic_trace[OF p] by (simp add: optimizer_update_simps)
qed

theorem periodic_actions_witness:
  "gns_measure ex_env ex_acc ex_args 0 ex_state = Inr (Some (init_gns ex_env))
   \<and> demo_every ex_args \<noteq> 0 \<and> save_every ex_args \<noteq> 0
   \<and> (\<exists>st'. train_step ex_env ex_acc ex_args 0 ex_state = Inr st'
        \<and> trace st' =
           [EvOptStep, EvSchedStep, EvEmaUpdate (get_value (ema_sched ex_state)), EvEmaSchedStep,
            EvDemo (demo_filename ex_args 1000), EvEvaluate 1000,
            EvSave (ckpt_filename ex_args 1000)
              (save_obj (optimizer_update ex_env 0 (Some (init_gns ex_env)) ex_state))])"
proof -
  have d: "demo_every ex_args \<noteq> 0" and s: "save_every ex_args \<noteq> 0"
    by (simp_all add: ex_args_def)
  have v: "step ex_state = 1000" "trace ex_state = []" "demo_every ex_args = 500"
    "evaluate_every ex_args = 1000" "save_every ex_args = 1000"
    by (simp_all add: ex_state_def ex_args_def)
  from s have s': "0 < step ex_state \<longrightarrow> save_every ex_args \<noteq> 0" by simp
  from periodic_actions[OF ex_gns_measure d s'] show ?thesis
    using ex_gns_measure d s by (simp add: v)
qed

section \<open>The EMA update\<close>

text \<open>
  Claim C3. In one training step the EMA update is invoked exactly once, after
  the optimizer step: the new shadow parameters are the EMA update of the old
  shadow parameters with the parameters the optimizer step produced, with the
  decay the warmup schedule gives at its counter before the step; the
  schedule's counter is advanced exactly once, afterwards.
\<close>

theorem ema_update_once_per_step:
  assumes "train_step e acc a b st = Inr st'"
  shows "model_ema st' = ema_update (fst (opt_step e b (model st) (opt st))) (model_ema st)
                           (get_value (ema_sched st))
     \<and> model st' = fst (opt_step e b (model st) (opt st))
     \<and> ema_sched st' = ema_sched_step (ema_sched st)
     \<and> ew_step (ema_sched st') = ew_step (ema_sched st) + 1
     \<and> filter is_ema_event (drop (length (trace st)) (trace st'))
         = [EvOptStep, EvEmaUpdate (get_value (ema_sched st)), EvEmaSchedStep]"
proof -
  from assms obtain gs st2 where g: "gns_measure e acc a b st = Inr gs"
    and p: "periodic e acc a (optimizer_update e b gs st) = Inr st2"
    and s: "st' = st2\<lparr>step := step st2 + 1\<rparr>"
    by (rule train_step_InrD)
  have tr: "filter is_ema_event (drop (length (trace st)) (trace st'))
         = [EvOptStep, EvEmaUpdate (get_value (ema_sched st)), EvEmaSchedStep]"
    using periodic_trace[OF p] s by (simp add: optimizer_update_simps)
  show ?thesis
    using periodic_fields[OF p] s tr
    by (simp add: optimizer_update_simps ema_sched_step_def)
qed

theorem ema_update_once_per_step_witness:
  "\<exists>st'. train_step ex_env ex_acc ex_args 0 ex_state = Inr st'
     \<and> model st' = [2, 3]
     \<and> model_ema st' = ema_update [2, 3] [1, 1] (decay (3 / 4) 0.999 1000)
     \<and> ew_step (ema_sched st') = 1001
     \<and> filter is_ema_event (trace st')
         = [EvOptStep, EvEmaUpdate (decay (3 / 4) 0.999 1000), EvEmaSchedStep]"
proof -
  obtain st' where t: "train_step ex_env ex_acc ex_args 0 ex_state = Inr st'"
    using ex_train_step by blast
  have v: "model ex_state = [1, 2]" "model_ema ex_state = [1, 1]" "opt ex_state = 7"
    "trace ex_state = []" "ema_sched ex_state = main_ema_sched\<lparr>ew_step := 1000\<rparr>"
    by (simp_all add: ex_state_def)
  have o: "fst (opt_step ex_env 0 [1, 2] 7) = [2, 3]"
    by (simp add: ex_env_def)
  have g: "get_value (main_ema_sched\<lparr>ew_step := 1000\<rparr>) = decay (3 / 4) 0.999 1000"
    by (simp add: get_value_def main_ema_sched_def)
  from ema_update_once_per_step[OF t] t show ?thesis
    by (auto simp: v o g ema_sched_step_def)
qed

section \<open>The GNS update with equal sizes\<close>

lemma gns_estimates_equal: "gns_estimates s l n n = None"
  by (simp add: gns_estimates_def)

lemma gns_measure_equal_sizes:
  assumes "gns a" "gns_stats st = Some g"
    and "batch_len e b * num_processes acc = batch_len e b"
  shows "gns_measure e acc a b st = Inr (Some g)"
proof -
  have "update_gns g x y (batch_len e b) (batch_len e b * num_processes acc) = Inr g" for x y
    by (simp only: assms(3) update_gns_equal)
  then show ?thesis
    using assms(1,2) by (simp add: gns_measure_def ebind_def split: prod.split)
qed

lemma train_step_gns_unchanged:
  assumes "gns a" "gns_stats st = Some g"
    and "batch_len e b * num_processes acc = batch_len e b"
    and "train_step e acc a b st = Inr st'"
  shows "gns_stats st' = Some g"
proof -
  from assms(4) obtain gs st2 where g: "gns_measure e acc a b st = Inr gs"
    and p: "periodic e acc a (optimizer_update e b gs st) = Inr st2"
    and s: "st' = st2\<lparr>step := step st2 + 1\<rparr>"
    by (rule train_step_InrD)
  from g gns_measure_equal_sizes[OF assms(1-3)] have "gs = Some g" by simp
  with periodic_fields(6)[OF p] s show ?thesis by (simp add: optimizer_update_simps)
qed

lemma train_batches_gns_unchanged:
  assumes "gns a" "num_processes acc = 1" "gns_stats st = Some g"
    and "train_batches e acc a bs st = Inr st'"
  shows "gns_stats st' = Some g"
  using assms(3,4)
proof (induction bs arbitrary: st)
  case Nil
  then show ?case by simp
next
  case (Cons b bs)
  from Cons.prems(2) obtain st1 where 1: "train_step e acc a b st = Inr st1"
    and 2: "train_batches e acc a bs st1 = Inr st'"
    by (auto simp: ebind_def split: sum.splits)
  have "batch_len e b * num_processes acc = batch_len e b"
    using assms(2) by simp
  from train_step_gns_unchanged[OF assms(1) Cons.prems(1) this 1]
  have "gns_stats st1 = Some g" .
  from Cons.IH[OF this 2] show ?case .
qed

lemma train_loop_gns_unchanged:
  assumes "gns a" "num_processes acc = 1" "gns_stats st = Some g"
    and "train_loop e acc a passes st = Inr st'"
  shows "gns_stats st' = Some g"
  using assms(3,4)
proof (induction passes arbitrary: st)
  case Nil
  then show ?case by simp
next
  case (Cons bs passes)
  from Cons.prems(2) obtain st1 where 1: "train_batches e acc a bs st = Inr st1"
    and 2: "train_loop e acc a passes (st1\<lparr>epoch := epoch st1 + 1\<rparr>) = Inr st'"
    by (auto simp: ebind_def train_epoch_def split: sum.splits)
  from train_batches_gns_unchanged[OF assms(1,2) Cons.prems(1) 1]
  have "gns_stats (st1\<lparr>epoch := epoch st1 + 1\<rparr>) = Some g" by simp
  from Cons.IH[OF this 2] show ?case .
qed

lemma train_batches_single_process_total:
  assumes "gns a" "num_processes acc = 1" "demo_every a \<noteq> 0" "save_every a \<noteq> 0"
    and "gns_stats st = Some g"
  shows "\<exists>st'. train_batches e acc a bs st = Inr st'"
  using assms(5)
proof (induction bs arbitrary: st)
  case Nil
  then show ?case by simp
next
  case (Cons b bs)
  have eq: "batch_len e b * num_processes acc = batch_len e b"
    using assms(2) by simp
  have m: "gns_measure e acc a b st = Inr (Some g)"
    by (rule gns_measure_equal_sizes[OF assms(1) Cons.prems eq])
  have "0 < step st \<longrightarrow> save_every a \<noteq> 0" using assms(4) by simp
  from train_step_total[OF m assms(3) this] obtain st1
    where 1: "train_step e acc a b st = Inr st1" by blast
  from train_step_gns_unchanged[OF assms(1) Cons.prems eq 1]
  have "gns_stats st1 = Some g" .
  from Cons.IH[OF this] 1 show ?case by (simp add: ebind_def)
qed

lemma train_loop_single_process_total:
  assumes "gns a" "num_processes acc = 1" "demo_every a \<noteq> 0" "save_every a \<noteq> 0"
    and "gns_stats st = Some g"
  shows "\<exists>st'. train_loop e acc a passes st = Inr st'"
  using assms(5)
proof (induction passes arbitrary: st)
  case Nil
  then show ?case by simp
next
  case (Cons bs passes)
  from train_batches_single_process_total[OF assms(1-4) Cons.prems, of e bs] obtain st1
    where 1: "train_batches e acc a bs st = Inr st1" by blast
  from train_batches_gns_unchanged[OF assms(1,2) Cons.prems 1]
  have "gns_stats (st1\<lparr>epoch := epoch st1 + 1\<rparr>) = Some g" by simp
  from Cons.IH[OF this] 1 show ?case by (simp add: ebind_def train_epoch_def)
qed

text \<open>
  Claim C6. For every GNS update in which \<open>large_size\<close> equals \<open>small_size\<close>
  both estimates are undefined (their denominators are zero), and the update is
  a no-op: it returns, the accumulator (smoothed \<open>G2\<close> and \<open>S\<close>) is unchanged
  across the call, and the undefined estimates do not enter it. The training
  loop passes the sizes \<open>reals.shape[0]\<close> and \<open>reals.shape[0] * num_processes\<close>:
  whenever these are equal the training step leaves the accumulator unchanged,
  and on a single process so does every run of the loop, over any number of
  passes.
\<close>

theorem gns_equal_sizes_noop:
  "gns_estimates s l n n = None
   \<and> update_gns g s l n n = Inr g
   \<and> (gns a \<and> gns_stats st = Some g
        \<and> batch_len e b * num_processes acc = batch_len e b \<longrightarrow>
        gns_measure e acc a b st = Inr (Some g)
        \<and> (\<forall>st'. train_step e acc a b st = Inr st' \<longrightarrow> gns_stats st' = Some g))
   \<and> (gns a \<and> gns_stats st = Some g \<and> num_processes acc = 1 \<longrightarrow>
        (\<forall>passes st'. train_loop e acc a passes st = Inr st' \<longrightarrow> gns_stats st' = Some g))"
  using gns_estimates_equal[of s l n] update_gns_equal[of g s l n]
    gns_measure_equal_sizes[of a st g e b acc]
    train_step_gns_unchanged[of a st g e b acc]
    train_loop_gns_unchanged[of a acc st g e]
  by blast

lemma ex_gns_fields:
  "gns ex_args" "num_processes ex_acc = 1" "gns_stats ex_state_gns = Some ex_gns"
  "demo_every ex_args \<noteq> 0" "save_every ex_args \<noteq> 0"
  "batch_len ex_env b * num_processes ex_acc = batch_len ex_env b"
  by (simp_all add: ex_args_def ex_acc_def ex_state_gns_def)

lemma ex_update_gns_unequal:
  "update_gns ex_gns 2 1 64 128 = Inr (ex_gns\<lparr>ema_sq_norm := 3 / 2, ema_var := 133 / 2\<rparr>)"
  by (simp add: update_gns_def gns_estimates_def ex_gns_def)

theorem gns_equal_sizes_noop_witness:
  "gns ex_args \<and> num_processes ex_acc = 1 \<and> gns_stats ex_state_gns = Some ex_gns
   \<and> ema_sq_norm ex_gns = 3 \<and> ema_var ex_gns = 5
   \<and> gns_estimates 2 1 64 64 = None
   \<and> update_gns ex_gns 2 1 64 64 = Inr ex_gns
   \<and> update_gns ex_gns 2 1 64 128 = Inr (ex_gns\<lparr>ema_sq_norm := 3 / 2, ema_var := 133 / 2\<rparr>)
   \<and> gns_measure ex_env ex_acc ex_args 0 ex_state_gns = Inr (Some ex_gns)
   \<and> (\<exists>st'. train_step ex_env ex_acc ex_args 0 ex_state_gns = Inr st'
         \<and> gns_stats st' = Some ex_gns)
   \<and> (\<exists>st'. train_loop ex_env ex_acc ex_args [[0, 1], [2]] ex_state_gns = Inr st'
         \<and> gns_stats st' = Some ex_gns)"
proof -
  note w = gns_equal_sizes_noop[of 2 1 64 ex_gns ex_args ex_state_gns ex_env 0 ex_acc]
  have m: "gns_measure ex_env ex_acc ex_args 0 ex_state_gns = Inr (Some ex_gns)"
    using w ex_gns_fields by blast
  have "0 < step ex_state_gns \<longrightarrow> save_every ex_args \<noteq> 0"
    using ex_gns_fields(5) by simp
  from train_step_total[OF m ex_gns_fields(4) this] obtain st1
    where 1: "train_step ex_env ex_acc ex_args 0 ex_state_gns = Inr st1" by blast
  from train_loop_single_process_total[OF ex_gns_fields(1,2,4,5,3), of ex_env "[[0, 1], [2]]"]
  obtain st2 where 2: "train_loop ex_env ex_acc ex_args [[0, 1], [2]] ex_state_gns = Inr st2"
    by blast
  have 3: "gns_stats st1 = Some ex_gns" using w ex_gns_fields 1 by blast
  have 4: "gns_stats st2 = Some ex_gns" using w ex_gns_fields 2 by blast
  have 5: "ema_sq_norm ex_gns = 3 \<and> ema_var ex_gns = 5" by (simp add: ex_gns_def)
  from w m 1 2 3 4 5 ex_gns_fields(1-3) ex_update_gns_unequal show ?thesis by blast
qed

section \<open>Zero intervals\<close>

lemma gns_measure_error:
  assumes "gns a \<longrightarrow> gns_stats st \<noteq> None"
  shows "gns_measure e acc a b st = Inl ZeroDivisionError \<or> (\<exists>gs. gns_measure e acc a b st = Inr gs)"
  using assms
  by (auto simp: gns_measure_def update_gns_def ebind_def split: prod.split option.split)

lemma train_step_demo_zero:
  assumes "demo_every a = 0" "gns a \<longrightarrow> gns_stats st \<noteq> None"
  shows "train_step e acc a b st = Inl ZeroDivisionError"
  using gns_measure_error[OF assms(2), of e acc b] assms(1)
  by (auto simp: train_step_def ebind_def periodic_cases)

lemma main_setup_fresh:
  assumes "resume a = None"
  shows "main_setup e acc a cf tf =
     Inr ((main_init e a cf tf)\<lparr>text_files := open_metrics_log acc a tf\<rparr>)"
  using assms by (simp add: main_setup_def main_resume_def ebind_def main_init_def)

lemma main_demo_zero:
  assumes "demo_every a = 0" "resume a = None"
  shows "main e acc a cf tf ((b # bs) # passes) = Inl ZeroDivisionError"
proof -
  let ?st = "(main_init e a cf tf)\<lparr>text_files := open_metrics_log acc a tf\<rparr>"
  have "gns a \<longrightarrow> gns_stats ?st \<noteq> None" by (simp add: main_init_def)
  then have "train_step e acc a b ?st = Inl ZeroDivisionError"
    by (rule train_step_demo_zero[OF assms(1)])
  then show ?thesis
    by (simp add: main_def main_setup_fresh[OF assms(2)] ebind_def train_epoch_def)
qed

text \<open>
  Claim C10. The trigger checks take the step modulo the configured interval
  with no guard on \<open>demo_every\<close> or \<open>save_every\<close>: with \<open>demo_every = 0\<close> the
  checks raise \<^verbatim>\<open>ZeroDivisionError\<close> at any step, and a run without resume
  raises it in its first loop iteration, at step 0; with \<open>save_every = 0\<close> the
  checks raise it at every step \<open>> 0\<close>; \<open>evaluate_every = 0\<close> alone is
  tolerated: the checks return and no evaluation is made.
\<close>

theorem zero_interval_raises:
  "(demo_every a = 0 \<longrightarrow> periodic e acc a st = Inl ZeroDivisionError)
   \<and> (demo_every a = 0 \<and> resume a = None \<longrightarrow>
        step (main_init e a cf tf) = 0
        \<and> main e acc a cf tf ((b # bs) # passes) = Inl ZeroDivisionError)
   \<and> (save_every a = 0 \<and> 0 < step st \<longrightarrow> periodic e acc a st = Inl ZeroDivisionError)
   \<and> (evaluate_every a = 0 \<and> demo_every a \<noteq> 0 \<and> save_every a \<noteq> 0 \<longrightarrow>
        (\<exists>st'. periodic e acc a st = Inr st' \<and> trace st' = trace st
           @ (if step st mod demo_every a = 0 then [EvDemo (demo_filename a (step st))] else [])
           @ (if 0 < step st \<and> step st mod save_every a = 0
              then [EvSave (ckpt_filename a (step st)) (save_obj st)] else [])))"
proof -
  have 1: "demo_every a = 0 \<longrightarrow> periodic e acc a st = Inl ZeroDivisionError"
    by (simp add: periodic_cases)
  have 2: "demo_every a = 0 \<and> resume a = None \<longrightarrow>
        step (main_init e a cf tf) = 0
        \<and> main e acc a cf tf ((b # bs) # passes) = Inl ZeroDivisionError"
    using main_demo_zero[of a e acc cf tf b bs passes] by (simp add: main_init_def)
  have 3: "save_every a = 0 \<and> 0 < step st \<longrightarrow> periodic e acc a st = Inl ZeroDivisionError"
    by (simp add: periodic_cases)
  have 4: "evaluate_every a = 0 \<and> demo_every a \<noteq> 0 \<and> save_every a \<noteq> 0 \<longrightarrow>
        (\<exists>st'. periodic e acc a st = Inr st' \<and> trace st' = trace st
           @ (if step st mod demo_every a = 0 then [EvDemo (demo_filename a (step st))] else [])
           @ (if 0 < step st \<and> step st mod save_every a = 0
              then [EvSave (ckpt_filename a (step st)) (save_obj st)] else []))"
  proof (intro impI)
    assume h: "evaluate_every a = 0 \<and> demo_every a \<noteq> 0 \<and> save_every a \<noteq> 0"
    then obtain st' where p: "periodic e acc a st = Inr st'"
      using periodic_total[of a st e acc] by blast
    from periodic_trace[OF p] h p show "\<exists>st'. periodic e acc a st = Inr st' \<and> trace st' = trace st
           @ (if step st mod demo_every a = 0 then [EvDemo (demo_filename a (step st))] else [])
           @ (if 0 < step st \<and> step st mod save_every a = 0
              then [EvSave (ckpt_filename a (step st)) (save_obj st)] else [])"
      by simp
  qed
  from 1 2 3 4 show ?thesis by blast
qed

theorem zero_interval_raises_witness:
  "demo_every (ex_args\<lparr>demo_every := 0\<rparr>) = 0 \<and> resume (ex_args\<lparr>demo_every := 0\<rparr>) = None
   \<and> periodic ex_env ex_acc (ex_args\<lparr>demo_every := 0\<rparr>) ex_state = Inl ZeroDivisionError
   \<and> main ex_env ex_acc (ex_args\<lparr>demo_every := 0\<rparr>) [] [] [[0]] = Inl ZeroDivisionError
   \<and> save_every (ex_args\<lparr>save_every := 0\<rparr>) = 0 \<and> 0 < step ex_state
   \<and> periodic ex_env ex_acc (ex_args\<lparr>save_every := 0\<rparr>) ex_state = Inl ZeroDivisionError
   \<and> evaluate_every (ex_args\<lparr>evaluate_every := 0\<rparr>) = 0
   \<and> (\<exists>st'. periodic ex_env ex_acc (ex_args\<lparr>evaluate_every := 0\<rparr>) ex_state = Inr st'
        \<and> trace st' =
           [EvDemo (demo_filename (ex_args\<lparr>evaluate_every := 0\<rparr>) 1000),
            EvSave (ckpt_filename (ex_args\<lparr>evaluate_every := 0\<rparr>) 1000) (save_obj ex_state)])"
proof -
  have v: "step ex_state = 1000" "trace ex_state = []" "demo_every ex_args = 500"
    "evaluate_every ex_args = 1000" "save_every ex_args = 1000" "resume ex_args = None"
    by (simp_all add: ex_state_def ex_args_def)
  from zero_interval_raises[of "ex_args\<lparr>demo_every := 0\<rparr>" ex_env ex_acc ex_state "[]" "[]" 0 "[]" "[]"]
  have 1: "periodic ex_env ex_acc (ex_args\<lparr>demo_every := 0\<rparr>) ex_state = Inl ZeroDivisionError
     \<and> main ex_env ex_acc (ex_args\<lparr>demo_every := 0\<rparr>) [] [] [[0]] = Inl ZeroDivisionError"
    by (simp add: v)
  from zero_interval_raises[of "ex_args\<lparr>save_every := 0\<rparr>" ex_env ex_acc ex_state "[]" "[]" 0 "[]" "[]"]
  have 2: "periodic ex_env ex_acc (ex_args\<lparr>save_every := 0\<rparr>) ex_state = Inl ZeroDivisionError"
    by (simp add: v)
  from zero_interval_raises[of "ex_args\<lparr>evaluate_every := 0\<rparr>" ex_env ex_acc ex_state "[]" "[]" 0 "[]" "[]"]
  have 3: "\<exists>st'. periodic ex_env ex_acc (ex_args\<lparr>evaluate_every := 0\<rparr>) ex_state = Inr st'
        \<and> trace st' =
           [EvDemo (demo_filename (ex_args\<lparr>evaluate_every := 0\<rparr>) 1000),
            EvSave (ckpt_filename (ex_args\<lparr>evaluate_every := 0\<rparr>) 1000) (save_obj ex_state)]"
    by (simp add: v)
  from 1 2 3 show ?thesis by (simp add: v)
qed

section \<open>The metrics log\<close>

lemma header_line: "print_sep '','' [''step'', ''fid'', ''kid''] = ''step,fid,kid''"
  by simp

lemma open_metrics_log_existing:
  "map_of files (metrics_log_filepath a) = Some ls \<Longrightarrow> open_metrics_log acc a files = files"
  by (simp add: open_metrics_log_def)

lemma open_metrics_log_new:
  assumes "is_main_process acc" "map_of files (metrics_log_filepath a) = None"
  shows "map_of (open_metrics_log acc a files)
           = (map_of files)(metrics_log_filepath a \<mapsto> [''step,fid,kid''])"
  using assms by (simp add: open_metrics_log_def update_conv')

lemma open_metrics_log_other: "\<not> is_main_process acc \<Longrightarrow> open_metrics_log acc a files = files"
  by (simp add: open_metrics_log_def)

lemma map_of_append_line:
  "map_of files path = Some ls \<Longrightarrow>
     map_of (append_line files path l) = (map_of files)(path \<mapsto> ls @ [l])"
  by (simp add: append_line_def update_conv')

lemma train_step_text_files:
  assumes "train_step e acc a b st = Inr st'"
  shows "text_files st' =
     (if is_main_process acc \<and> 0 < step st \<and> 0 < evaluate_every a
          \<and> step st mod evaluate_every a = 0
      then append_line (text_files st) (metrics_log_filepath a)
             (metrics_row e (step st)
                (fst (fid_kid e (ema_update (fst (opt_step e b (model st) (opt st)))
                                   (model_ema st) (get_value (ema_sched st)))))
                (snd (fid_kid e (ema_update (fst (opt_step e b (model st) (opt st)))
                                   (model_ema st) (get_value (ema_sched st))))))
      else text_files st)"
proof -
  from assms obtain gs st2 where g: "gns_measure e acc a b st = Inr gs"
    and p: "periodic e acc a (optimizer_update e b gs st) = Inr st2"
    and s: "st' = st2\<lparr>step := step st2 + 1\<rparr>"
    by (rule train_step_InrD)
  from periodic_text_files[OF p] s show ?thesis
    by (simp add: optimizer_update_simps(1,5,9))
qed

text \<open>
  Claim C9. The metrics log is an append-only comma-delimited stream. The
  header line \<open>step,fid,kid\<close> is written only when the file does not exist, and
  only by the main process; an existing file is opened for append and no file is
  changed. A training step leaves every other file alone and appends to the
  log exactly one row \<open>step,fid,kid\<close> of values when the evaluation is due and
  the process is the main process, and nothing otherwise; the lines already in
  the log are kept.
\<close>

theorem metrics_log_append_only:
  "print_sep '','' [''step'', ''fid'', ''kid''] = ''step,fid,kid''
   \<and> (map_of files (metrics_log_filepath a) = Some ls \<longrightarrow> open_metrics_log acc a files = files)
   \<and> (is_main_process acc \<and> map_of files (metrics_log_filepath a) = None \<longrightarrow>
        map_of (open_metrics_log acc a files)
          = (map_of files)(metrics_log_filepath a \<mapsto> [''step,fid,kid'']))
   \<and> (\<not> is_main_process acc \<longrightarrow> open_metrics_log acc a files = files)
   \<and> (train_step e acc a b st = Inr st'
        \<and> map_of (text_files st) (metrics_log_filepath a) = Some ls \<longrightarrow>
        map_of (text_files st') = (map_of (text_files st))(metrics_log_filepath a \<mapsto>
           ls @ (if is_main_process acc \<and> 0 < step st \<and> 0 < evaluate_every a
                     \<and> step st mod evaluate_every a = 0
                 then [let fk = fid_kid e (ema_update (fst (opt_step e b (model st) (opt st)))
                                             (model_ema st) (get_value (ema_sched st)))
                       in print_sep '','' [str_int (step st), str_float e (fst fk),
                                           str_float e (snd fk)]]
                 else [])))"
proof -
  have 5: "map_of (text_files st') = (map_of (text_files st))(metrics_log_filepath a \<mapsto>
           ls @ (if is_main_process acc \<and> 0 < step st \<and> 0 < evaluate_every a
                     \<and> step st mod evaluate_every a = 0
                 then [let fk = fid_kid e (ema_update (fst (opt_step e b (model st) (opt st)))
                                             (model_ema st) (get_value (ema_sched st)))
                       in print_sep '','' [str_int (step st), str_float e (fst fk),
                                           str_float e (snd fk)]]
                 else []))"
    if t: "train_step e acc a b st = Inr st'"
      and l: "map_of (text_files st) (metrics_log_filepath a) = Some ls"
  proof -
    have idem: "(map_of (text_files st))(metrics_log_filepath a \<mapsto> ls) = map_of (text_files st)"
      using l by (rule map_upd_triv)
    show ?thesis
      using train_step_text_files[OF t] l idem
      by (simp add: map_of_append_line metrics_row_def Let_def del: print_sep.simps)
  qed
  show ?thesis
    using header_line open_metrics_log_existing[of files a ls acc]
      open_metrics_log_new[of acc files a] open_metrics_log_other[of acc a files] 5
    by blast
qed

theorem metrics_log_append_only_witness:
  "map_of (text_files ex_state) (metrics_log_filepath ex_args) = Some [''step,fid,kid'']
   \<and> open_metrics_log ex_acc ex_args (text_files ex_state) = text_files ex_state
   \<and> is_main_process ex_acc
   \<and> map_of ([] :: (string \<times> string list) list) (metrics_log_filepath ex_args) = None
   \<and> map_of (open_metrics_log ex_acc ex_args []) (metrics_log_filepath ex_args)
       = Some [''step,fid,kid'']
   \<and> (\<exists>st'. train_step ex_env ex_acc ex_args 0 ex_state = Inr st'
        \<and> map_of (text_files st') (metrics_log_filepath ex_args)
            = Some [''step,fid,kid'',
                    print_sep '','' [str_int 1000, str_float ex_env 3, str_float ex_env 4]])"
proof -
  obtain st' where t: "train_step ex_env ex_acc ex_args 0 ex_state = Inr st'"
    using ex_train_step by blast
  have l: "map_of (text_files ex_state) (metrics_log_filepath ex_args) = Some [''step,fid,kid'']"
    by (simp add: ex_state_def ex_args_def metrics_log_filepath_def)
  have m: "is_main_process ex_acc" by (simp add: ex_acc_def)
  have n: "map_of ([] :: (string \<times> string list) list) (metrics_log_filepath ex_args) = None"
    by simp
  have v: "step ex_state = 1000" "evaluate_every ex_args = 1000"
    by (simp_all add: ex_state_def ex_args_def)
  have f: "fid_kid ex_env m' = (3, 4)" for m'
    by (simp add: ex_env_def)
  note w = metrics_log_append_only[of "text_files ex_state" ex_args "[''step,fid,kid'']" ex_acc
      ex_env 0 ex_state st']
  note w0 = metrics_log_append_only[of "[]" ex_args "[]" ex_acc ex_env 0 ex_state st']
  have 1: "open_metrics_log ex_acc ex_args (text_files ex_state) = text_files ex_state"
    using w l by blast
  have 2: "map_of (open_metrics_log ex_acc ex_args []) (metrics_log_filepath ex_args)
       = Some [''step,fid,kid'']"
    using w0 m n by simp
  have 3: "map_of (text_files st') (metrics_log_filepath ex_args)
            = Some [''step,fid,kid'',
                    print_sep '','' [str_int 1000, str_float ex_env 3, str_float ex_env 4]]"
    using w t l m by (simp add: v f del: print_sep.simps)
  from 1 2 3 l m n t show ?thesis by blast
qed

section \<open>Resume\<close>

lemma main_resume_ok:
  assumes "resume a = Some path" "path \<noteq> []"
    and "map_of (ckpt_files st) path = Some ckpt"
    and "map_of ckpt ''model'' = Some (Tensors m)" "length m = length (model st)"
    and "map_of ckpt ''model_ema'' = Some (Tensors me)" "length me = length (model_ema st)"
    and "map_of ckpt ''opt'' = Some (OptState os)"
    and "map_of ckpt ''sched'' = Some (SchedState ls)"
    and "map_of ckpt ''ema_sched'' = Some (EmaSchedState es)"
    and "map_of ckpt ''epoch'' = Some (IntVal ep)"
    and "map_of ckpt ''step'' = Some (IntVal sp)"
    and "map_of ckpt ''gns_stats'' = Some (case gq of None \<Rightarrow> NoneVal | Some g \<Rightarrow> GnsState g)"
  shows "main_resume a st =
     Inr (st\<lparr>model := m, model_ema := me, opt := os, sched := ls, ema_sched := es,
             gns_stats := (case gq of None \<Rightarrow> gns_stats st
                           | Some g \<Rightarrow> if gns a then Some g else gns_stats st),
             epoch := ep + 1, step := sp + 1\<rparr>)"
  using assms
  by (cases gq)
     (simp_all add: main_resume_def torch_load_def getitem_def ebind_def load_params_def
        load_opt_def load_sched_def load_ema_sched_def load_gns_def plus_one_def)

lemma train_step_counters:
  assumes "train_step e acc a b st = Inr st'"
  shows "epoch st' = epoch st" "step st' = step st + 1"
proof -
  from assms obtain gs st2 where p: "periodic e acc a (optimizer_update e b gs st) = Inr st2"
    and s: "st' = st2\<lparr>step := step st2 + 1\<rparr>"
    by (rule train_step_InrD)
  from periodic_fields(7,8)[OF p] s show "epoch st' = epoch st" "step st' = step st + 1"
    by (simp_all add: optimizer_update_simps)
qed

lemma train_batches_counters:
  assumes "train_batches e acc a bs st = Inr st'"
  shows "epoch st' = epoch st \<and> step st' = step st + int (length bs)"
  using assms
proof (induction bs arbitrary: st)
  case Nil
  then show ?case by simp
next
  case (Cons b bs)
  then obtain st1 where 1: "train_step e acc a b st = Inr st1"
    and 2: "train_batches e acc a bs st1 = Inr st'"
    by (auto simp: ebind_def split: sum.splits)
  from Cons.IH[OF 2] train_step_counters[OF 1] show ?case by simp
qed

lemma train_epoch_counters:
  assumes "train_epoch e acc a bs st = Inr st'"
  shows "epoch st' = epoch st + 1" "step st' = step st + int (length bs)"
proof -
  from assms obtain st1 where 1: "train_batches e acc a bs st = Inr st1"
    and 2: "st' = st1\<lparr>epoch := epoch st1 + 1\<rparr>"
    by (auto simp: train_epoch_def ebind_def split: sum.splits)
  from train_batches_counters[OF 1] 2 show "epoch st' = epoch st + 1"
    "step st' = step st + int (length bs)" by simp_all
qed

lemma map_of_save_obj:
  "map_of (save_obj st) ''model'' = Some (Tensors (model st))"
  "map_of (save_obj st) ''model_ema'' = Some (Tensors (model_ema st))"
  "map_of (save_obj st) ''opt'' = Some (OptState (opt st))"
  "map_of (save_obj st) ''sched'' = Some (SchedState (sched st))"
  "map_of (save_obj st) ''ema_sched'' = Some (EmaSchedState (ema_sched st))"
  "map_of (save_obj st) ''epoch'' = Some (IntVal (epoch st))"
  "map_of (save_obj st) ''step'' = Some (IntVal (step st))"
  "map_of (save_obj st) ''gns_stats''
     = Some (case gns_stats st of None \<Rightarrow> NoneVal | Some g \<Rightarrow> GnsState g)"
  by (simp_all add: save_obj_def)

lemma save_obj_keys:
  "map fst (save_obj st) =
     [''model'', ''model_ema'', ''opt'', ''sched'', ''ema_sched'', ''epoch'', ''step'', ''gns_stats'']"
  by (simp add: save_obj_def)

lemma ckpt_filename_nonempty: "ckpt_filename a s \<noteq> []"
  by (simp add: ckpt_filename_def)

lemma save_writes:
  "is_main_process acc \<Longrightarrow>
     map_of (ckpt_files (save acc a st)) (ckpt_filename a (step st)) = Some (save_obj st)"
  by (simp add: save_def Let_def update_conv')

lemma ex_fresh_file:
  "map_of (ckpt_files ex_fresh) (ckpt_filename ex_args 1000) = Some (save_obj ex_state)"
proof -
  have "is_main_process ex_acc" by (simp add: ex_acc_def)
  from save_writes[OF this, of ex_args ex_state] show ?thesis
    by (simp add: ex_fresh_def main_init_def ex_state_def)
qed

lemma ex_fresh_fields:
  "model ex_fresh = [0, 0]" "model_ema ex_fresh = [0, 0]"
  "ckpt_files ex_fresh = ckpt_files (save ex_acc ex_args ex_state)"
  by (simp_all add: ex_fresh_def main_init_def ex_env_def)

lemma ex_state_fields:
  "model ex_state = [1, 2]" "model_ema ex_state = [1, 1]" "opt ex_state = 7"
  "epoch ex_state = 3" "step ex_state = 1000"
  "gns_stats ex_state = Some (init_gns ex_env)"
  by (simp_all add: ex_state_def)

lemma ex_resume_args_fields:
  "resume ex_resume_args = Some (ckpt_filename ex_args 1000)" "gns ex_resume_args"
  by (simp_all add: ex_resume_args_def ex_args_def)

lemma ex_main_resume:
  "main_resume ex_resume_args ex_fresh =
     Inr (ex_fresh\<lparr>model := [1, 2], model_ema := [1, 1], opt := 7, sched := sched ex_state,
            ema_sched := ema_sched ex_state, gns_stats := Some (init_gns ex_env),
            epoch := 4, step := 1001\<rparr>)"
proof -
  note m = map_of_save_obj[of ex_state, unfolded ex_state_fields]
  have g: "map_of (save_obj ex_state) ''gns_stats''
     = Some (case Some (init_gns ex_env) of None \<Rightarrow> NoneVal | Some g \<Rightarrow> GnsState g)"
    using m(8) by simp
  from main_resume_ok[OF ex_resume_args_fields(1) ckpt_filename_nonempty ex_fresh_file
      m(1) _ m(2) _ m(3-7) g]
  show ?thesis
    by (simp add: ex_fresh_fields ex_resume_args_fields)
qed

text \<open>
  Claim C1, as stated, fails: the epoch counter is not restored unchanged. For
  the checkpoint saved at step 1000 of epoch 3, the resumed run starts at step
  1001 and at epoch 4.
\<close>

theorem resume_epoch_counterexample:
  "map_of (save_obj ex_state) ''epoch'' = Some (IntVal 3)
   \<and> map_of (save_obj ex_state) ''step'' = Some (IntVal 1000)
   \<and> map_of (ckpt_files ex_fresh) (ckpt_filename ex_args 1000) = Some (save_obj ex_state)
   \<and> resume ex_resume_args = Some (ckpt_filename ex_args 1000)
   \<and> map_sum id step (main_resume ex_resume_args ex_fresh) = Inr 1001
   \<and> map_sum id epoch (main_resume ex_resume_args ex_fresh) = Inr 4
   \<and> map_sum id epoch (main_resume ex_resume_args ex_fresh) \<noteq> Inr 3"
  using map_of_save_obj(6,7)[of ex_state] ex_fresh_file ex_resume_args_fields(1)
  by (simp add: ex_main_resume ex_state_fields)

text \<open>
  Claim C1, amended. When resuming from a checkpoint that holds the named
  fields, with parameters of the model's shape, training continues from
  \<open>step = saved step + 1\<close> and \<open>epoch = saved epoch + 1\<close>; the model, the EMA
  shadow, the optimizer, the LR schedule and the EMA schedule are restored
  verbatim from the checkpoint, and the GNS accumulator is restored verbatim
  when GNS measurement is enabled and the checkpoint holds one. Afterwards a
  training step adds one to the step and leaves the epoch unchanged, and the
  epoch is incremented only at the end of a pass over the dataset.
\<close>

theorem resume_from_checkpoint:
  assumes "resume a = Some path" "path \<noteq> []"
    and "map_of (ckpt_files st) path = Some ckpt"
    and "map_of ckpt ''model'' = Some (Tensors m)" "length m = length (model st)"
    and "map_of ckpt ''model_ema'' = Some (Tensors me)" "length me = length (model_ema st)"
    and "map_of ckpt ''opt'' = Some (OptState os)"
    and "map_of ckpt ''sched'' = Some (SchedState ls)"
    and "map_of ckpt ''ema_sched'' = Some (EmaSchedState es)"
    and "map_of ckpt ''epoch'' = Some (IntVal ep)"
    and "map_of ckpt ''step'' = Some (IntVal sp)"
    and "map_of ckpt ''gns_stats'' = Some (case gq of None \<Rightarrow> NoneVal | Some g \<Rightarrow> GnsState g)"
  shows "main_resume a st =
     Inr (st\<lparr>model := m, model_ema := me, opt := os, sched := ls, ema_sched := es,
             gns_stats := (case gq of None \<Rightarrow> gns_stats st
                           | Some g \<Rightarrow> if gns a then Some g else gns_stats st),
             epoch := ep + 1, step := sp + 1\<rparr>)
     \<and> (\<forall>s s'. train_step e acc a b s = Inr s' \<longrightarrow> epoch s' = epoch s \<and> step s' = step s + 1)
     \<and> (\<forall>s s'. train_epoch e acc a bs s = Inr s' \<longrightarrow> epoch s' = epoch s + 1)"
  using main_resume_ok[OF assms] train_step_counters[of e acc a b] train_epoch_counters(1)[of e acc a bs]
  by blast

lemma ex_resume_train_step:
  "\<exists>s'. train_step ex_env ex_acc ex_resume_args 0 ex_state = Inr s'"
proof -
  have "gns_measure ex_env ex_acc ex_resume_args 0 ex_state = Inr (Some (init_gns ex_env))"
    by (rule gns_measure_single_process)
       (simp_all add: ex_resume_args_def ex_args_def ex_state_def ex_acc_def)
  then show ?thesis
    by (rule train_step_total) (simp_all add: ex_resume_args_def ex_args_def)
qed

theorem resume_from_checkpoint_witness:
  "resume ex_resume_args = Some (ckpt_filename ex_args 1000)
   \<and> ckpt_filename ex_args 1000 \<noteq> []
   \<and> map_of (ckpt_files ex_fresh) (ckpt_filename ex_args 1000) = Some (save_obj ex_state)
   \<and> map_of (save_obj ex_state) ''epoch'' = Some (IntVal 3)
   \<and> map_of (save_obj ex_state) ''step'' = Some (IntVal 1000)
   \<and> main_resume ex_resume_args ex_fresh =
       Inr (ex_fresh\<lparr>model := [1, 2], model_ema := [1, 1], opt := 7, sched := sched ex_state,
              ema_sched := ema_sched ex_state, gns_stats := Some (init_gns ex_env),
              epoch := 4, step := 1001\<rparr>)
   \<and> (\<exists>s'. train_step ex_env ex_acc ex_resume_args 0 ex_state = Inr s'
         \<and> epoch s' = 3 \<and> step s' = 1001)"
proof -
  note m = map_of_save_obj[of ex_state, unfolded ex_state_fields]
  have g: "map_of (save_obj ex_state) ''gns_stats''
     = Some (case Some (init_gns ex_env) of None \<Rightarrow> NoneVal | Some g \<Rightarrow> GnsState g)"
    using m(8) by simp
  obtain s' where t: "train_step ex_env ex_acc ex_resume_args 0 ex_state = Inr s'"
    using ex_resume_train_step by blast
  note w = resume_from_checkpoint[OF ex_resume_args_fields(1) ckpt_filename_nonempty ex_fresh_file
      m(1) _ m(2) _ m(3-7) g, of ex_env ex_acc 0 "[]"]
  have 1: "main_resume ex_resume_args ex_fresh =
       Inr (ex_fresh\<lparr>model := [1, 2], model_ema := [1, 1], opt := 7, sched := sched ex_state,
              ema_sched := ema_sched ex_state, gns_stats := Some (init_gns ex_env),
              epoch := 4, step := 1001\<rparr>)"
    using w by (simp add: ex_fresh_fields ex_resume_args_fields)
  have "\<forall>s s'. train_step ex_env ex_acc ex_resume_args 0 s = Inr s' \<longrightarrow>
          epoch s' = epoch s \<and> step s' = step s + 1"
    using w by (simp add: ex_fresh_fields)
  with t have 2: "epoch s' = 3 \<and> step s' = 1001"
    by (simp add: ex_state_fields)
  from 1 2 t m(6,7) ex_fresh_file ex_resume_args_fields(1) ckpt_filename_nonempty[of ex_args 1000]
  show ?thesis by blast
qed

section \<open>Checkpoint round trip\<close>

lemma save_obj_values:
  "map snd (save_obj st) =
     [Tensors (model st), Tensors (model_ema st), OptState (opt st), SchedState (sched st),
      EmaSchedState (ema_sched st), IntVal (epoch st), IntVal (step st),
      (case gns_stats st of None \<Rightarrow> NoneVal | Some g \<Rightarrow> GnsState g)]"
  by (simp add: save_obj_def)

lemma ex_state_gns_fields:
  "model ex_state_gns = [1, 2]" "model_ema ex_state_gns = [1, 1]" "opt ex_state_gns = 7"
  "epoch ex_state_gns = 3" "step ex_state_gns = 1000"
  "gns_stats ex_state_gns = Some ex_gns"
  "sched ex_state_gns = sched ex_state" "ema_sched ex_state_gns = ema_sched ex_state"
  by (simp_all add: ex_state_gns_def ex_state_def)

lemma ex_fresh_gns_fields:
  "model ex_fresh_gns = [0, 0]" "model_ema ex_fresh_gns = [0, 0]"
  "ckpt_files ex_fresh_gns = ckpt_files (save ex_acc ex_args ex_state_gns)"
  "gns_stats ex_fresh_gns = Some (init_gns ex_env)"
  by (simp_all add: ex_fresh_gns_def main_init_def ex_env_def ex_resume_args_def ex_args_def)

lemma ex_round_trip_hyps:
  "is_main_process ex_acc"
  "resume ex_resume_args = Some (ckpt_filename ex_args (step ex_state_gns))"
  "ckpt_files ex_fresh_gns = ckpt_files (save ex_acc ex_args ex_state_gns)"
  "length (model ex_fresh_gns) = length (model ex_state_gns)"
  "length (model_ema ex_fresh_gns) = length (model_ema ex_state_gns)"
  by (simp_all add: ex_acc_def ex_resume_args_fields ex_state_gns_fields ex_fresh_gns_fields)

lemma ex_main_resume_gns:
  "main_resume ex_resume_args ex_fresh_gns =
     Inr (ex_fresh_gns\<lparr>model := [1, 2], model_ema := [1, 1], opt := 7, sched := sched ex_state,
            ema_sched := ema_sched ex_state, gns_stats := Some ex_gns,
            epoch := 4, step := 1001\<rparr>)"
proof -
  have f: "map_of (ckpt_files ex_fresh_gns) (ckpt_filename ex_args 1000) = Some (save_obj ex_state_gns)"
    using save_writes[OF ex_round_trip_hyps(1), of ex_args ex_state_gns]
    by (simp add: ex_fresh_gns_fields ex_state_gns_fields)
  note m = map_of_save_obj[of ex_state_gns, unfolded ex_state_gns_fields]
  have g: "map_of (save_obj ex_state_gns) ''gns_stats''
     = Some (case Some ex_gns of None \<Rightarrow> NoneVal | Some g \<Rightarrow> GnsState g)"
    using m(8) by simp
  from main_resume_ok[OF ex_resume_args_fields(1) ckpt_filename_nonempty f
      m(1) _ m(2) _ m(3-7) g]
  show ?thesis
    by (simp add: ex_fresh_gns_fields ex_resume_args_fields)
qed

lemma ex_continue_gns:
  "map_sum id step (train_step ex_env ex_acc ex_args 0 ex_state_gns) = Inr 1001"
  "map_sum id epoch (train_step ex_env ex_acc ex_args 0 ex_state_gns) = Inr 3"
proof -
  have m: "gns_measure ex_env ex_acc ex_args 0 ex_state_gns = Inr (Some ex_gns)"
    by (rule gns_measure_equal_sizes[OF ex_gns_fields(1,3,6)])
  have "0 < step ex_state_gns \<longrightarrow> save_every ex_args \<noteq> 0"
    using ex_gns_fields(5) by simp
  from train_step_total[OF m ex_gns_fields(4) this] obtain st1
    where 1: "train_step ex_env ex_acc ex_args 0 ex_state_gns = Inr st1" by blast
  from train_step_counters[OF 1] 1
  show "map_sum id step (train_step ex_env ex_acc ex_args 0 ex_state_gns) = Inr 1001"
    "map_sum id epoch (train_step ex_env ex_acc ex_args 0 ex_state_gns) = Inr 3"
    by (simp_all add: ex_state_gns_fields)
qed

text \<open>
  Claim C4, as stated, fails: saving then loading does not restore the step and
  the epoch. For the checkpoint saved at step 1000 of epoch 3, the run resumed
  from the saved file starts at step 1001 and epoch 4, while the saving run
  continues at epoch 3.
\<close>

theorem checkpoint_round_trip_counterexample:
  "step ex_state_gns = 1000 \<and> epoch ex_state_gns = 3
   \<and> torch_load (ckpt_files (save ex_acc ex_args ex_state_gns)) (ckpt_filename ex_args 1000)
       = Inr (save_obj ex_state_gns)
   \<and> ckpt_files ex_fresh_gns = ckpt_files (save ex_acc ex_args ex_state_gns)
   \<and> resume ex_resume_args = Some (ckpt_filename ex_args 1000)
   \<and> map_sum id step (main_resume ex_resume_args ex_fresh_gns) = Inr 1001
   \<and> map_sum id step (main_resume ex_resume_args ex_fresh_gns) \<noteq> Inr (step ex_state_gns)
   \<and> map_sum id epoch (main_resume ex_resume_args ex_fresh_gns) = Inr 4
   \<and> map_sum id epoch (main_resume ex_resume_args ex_fresh_gns) \<noteq> Inr (epoch ex_state_gns)
   \<and> map_sum id epoch (train_step ex_env ex_acc ex_args 0 ex_state_gns) = Inr 3
   \<and> map_sum id epoch (main_resume ex_resume_args ex_fresh_gns)
       \<noteq> map_sum id epoch (train_step ex_env ex_acc ex_args 0 ex_state_gns)"
proof -
  have l: "torch_load (ckpt_files (save ex_acc ex_args ex_state_gns)) (ckpt_filename ex_args 1000)
       = Inr (save_obj ex_state_gns)"
    using save_writes[OF ex_round_trip_hyps(1), of ex_args ex_state_gns]
    by (simp add: torch_load_def ex_state_gns_fields)
  show ?thesis
    using l ex_fresh_gns_fields(3) ex_resume_args_fields(1)
    by (simp add: ex_main_resume_gns ex_continue_gns ex_state_gns_fields)
qed

text \<open>
  Claim C4, amended. The checkpoint written at a save point has exactly the
  fields \<open>model\<close>, \<open>model_ema\<close>, \<open>opt\<close>, \<open>sched\<close>, \<open>ema_sched\<close>, \<open>epoch\<close>,
  \<open>step\<close> and \<open>gns_stats\<close>, holding the backbone parameters, the EMA shadow
  parameters, the optimizer state, both schedules' states, the epoch and step
  counters at the save, and the GNS accumulator's state (\<^verbatim>\<open>None\<close> without
  one). Loading the saved file in a run started with \<^verbatim>\<open>--resume\<close> succeeds
  and restores the parameters, the optimizer state and both schedules' states
  to the saved ones, so that every subsequent LR multiplier and EMA decay is the
  one of the saving run; the GNS accumulator is restored when the resumed run
  measures GNS and the checkpoint holds one; the resumed run's counters are the
  saved step plus one and the saved epoch plus one.
\<close>

theorem checkpoint_round_trip:
  assumes "is_main_process acc"
    and "resume a' = Some (ckpt_filename a (step st))"
    and "ckpt_files st0 = ckpt_files (save acc a st)"
    and "length (model st0) = length (model st)"
    and "length (model_ema st0) = length (model_ema st)"
  shows "(\<exists>ckpt. torch_load (ckpt_files (save acc a st)) (ckpt_filename a (step st)) = Inr ckpt
           \<and> map fst ckpt =
               [''model'', ''model_ema'', ''opt'', ''sched'', ''ema_sched'', ''epoch'', ''step'',
                ''gns_stats'']
           \<and> map snd ckpt =
               [Tensors (model st), Tensors (model_ema st), OptState (opt st),
                SchedState (sched st), EmaSchedState (ema_sched st), IntVal (epoch st),
                IntVal (step st),
                (case gns_stats st of None \<Rightarrow> NoneVal | Some g \<Rightarrow> GnsState g)])
     \<and> (\<exists>st'. main_resume a' st0 = Inr st'
          \<and> model st' = model st \<and> model_ema st' = model_ema st \<and> opt st' = opt st
          \<and> sched st' = sched st \<and> ema_sched st' = ema_sched st
          \<and> gns_stats st' =
               (case gns_stats st of None \<Rightarrow> gns_stats st0
                | Some g \<Rightarrow> if gns a' then Some g else gns_stats st0)
          \<and> step st' = step st + 1 \<and> epoch st' = epoch st + 1
          \<and> (\<forall>k. multiplier ((sched_step ^^ k) (sched st'))
                  = multiplier ((sched_step ^^ k) (sched st)))
          \<and> (\<forall>k. get_value ((ema_sched_step ^^ k) (ema_sched st'))
                  = get_value ((ema_sched_step ^^ k) (ema_sched st))))"
proof -
  have f: "map_of (ckpt_files st0) (ckpt_filename a (step st)) = Some (save_obj st)"
    using assms(1,3) by (simp add: save_writes)
  have r: "main_resume a' st0 =
     Inr (st0\<lparr>model := model st, model_ema := model_ema st, opt := opt st, sched := sched st,
             ema_sched := ema_sched st,
             gns_stats := (case gns_stats st of None \<Rightarrow> gns_stats st0
                           | Some g \<Rightarrow> if gns a' then Some g else gns_stats st0),
             epoch := epoch st + 1, step := step st + 1\<rparr>)"
    by (rule main_resume_ok[OF assms(2) ckpt_filename_nonempty f map_of_save_obj(1) _
          map_of_save_obj(2) _ map_of_save_obj(3-8)]) (simp_all add: assms(4,5))
  have l: "torch_load (ckpt_files (save acc a st)) (ckpt_filename a (step st)) = Inr (save_obj st)"
    using assms(1) by (simp add: torch_load_def save_writes)
  have 1: "\<exists>ckpt. torch_load (ckpt_files (save acc a st)) (ckpt_filename a (step st)) = Inr ckpt
           \<and> map fst ckpt =
               [''model'', ''model_ema'', ''opt'', ''sched'', ''ema_sched'', ''epoch'', ''step'',
                ''gns_stats'']
           \<and> map snd ckpt =
               [Tensors (model st), Tensors (model_ema st), OptState (opt st),
                SchedState (sched st), EmaSchedState (ema_sched st), IntVal (epoch st),
                IntVal (step st),
                (case gns_stats st of None \<Rightarrow> NoneVal | Some g \<Rightarrow> GnsState g)]"
    by (intro exI[of _ "save_obj st"] conjI) (rule l save_obj_keys save_obj_values)+
  show ?thesis
    using r 1 by simp
qed

theorem checkpoint_round_trip_witness:
  "is_main_process ex_acc
   \<and> resume ex_resume_args = Some (ckpt_filename ex_args (step ex_state_gns))
   \<and> ckpt_files ex_fresh_gns = ckpt_files (save ex_acc ex_args ex_state_gns)
   \<and> length (model ex_fresh_gns) = length (model ex_state_gns)
   \<and> length (model_ema ex_fresh_gns) = length (model_ema ex_state_gns)
   \<and> gns_stats ex_fresh_gns = Some (init_gns ex_env) \<and> init_gns ex_env \<noteq> ex_gns
   \<and> (\<exists>ckpt. torch_load (ckpt_files (save ex_acc ex_args ex_state_gns))
                (ckpt_filename ex_args 1000) = Inr ckpt
          \<and> map fst ckpt =
               [''model'', ''model_ema'', ''opt'', ''sched'', ''ema_sched'', ''epoch'', ''step'',
                ''gns_stats'']
          \<and> map snd ckpt =
               [Tensors [1, 2], Tensors [1, 1], OptState 7, SchedState (sched ex_state),
                EmaSchedState (ema_sched ex_state), IntVal 3, IntVal 1000, GnsState ex_gns])
   \<and> (\<exists>st'. main_resume ex_resume_args ex_fresh_gns = Inr st'
         \<and> model st' = [1, 2] \<and> model_ema st' = [1, 1] \<and> opt st' = 7
         \<and> sched st' = sched ex_state \<and> ema_sched st' = ema_sched ex_state
         \<and> gns_stats st' = Some ex_gns
         \<and> step st' = 1001 \<and> epoch st' = 4
         \<and> multiplier ((sched_step ^^ 5) (sched st'))
             = multiplier ((sched_step ^^ 5) (sched ex_state))
         \<and> get_value ((ema_sched_step ^^ 5) (ema_sched st'))
             = get_value ((ema_sched_step ^^ 5) (ema_sched ex_state)))"
proof -
  have n: "init_gns ex_env \<noteq> ex_gns"
    by (simp add: ex_env_def ex_gns_def)
  have g: "gns ex_resume_args" by (rule ex_resume_args_fields(2))
  from checkpoint_round_trip[OF ex_round_trip_hyps] ex_round_trip_hyps n g
  show ?thesis
    by (simp add: ex_state_gns_fields ex_fresh_gns_fields) blast
qed

end
